theory Spec2Isabelle
  imports Main
begin

section \<open>Python strings\<close>

text \<open>
  A Python \<^verbatim>\<open>str\<close> is a sequence of Unicode code points and \<^verbatim>\<open>len\<close> counts code
  points, so a string is a list of code points here. Field names and the literals of the
  source are ASCII and are written as HOL string literals, converted by \<open>py\<close>.
\<close>

type_synonym pystr = "nat list"

definition py :: "string \<Rightarrow> pystr" where
  "py s = map of_char s"

text \<open>
  \<^verbatim>\<open>str.isspace\<close>, \<^verbatim>\<open>str.strip()\<close> and the class \<^verbatim>\<open>\s\<close> of a \<^verbatim>\<open>str\<close> pattern all use the
  same table of whitespace code points.
\<close>

definition is_space :: "nat \<Rightarrow> bool" where
  "is_space c \<longleftrightarrow>
     (9 \<le> c \<and> c \<le> 13) \<or> (28 \<le> c \<and> c \<le> 32) \<or> c = 133 \<or> c = 160 \<or> c = 5760 \<or>
     (8192 \<le> c \<and> c \<le> 8202) \<or> c = 8232 \<or> c = 8233 \<or> c = 8239 \<or> c = 8287 \<or> c = 12288"

text \<open>
  In a \<^verbatim>\<open>str\<close> pattern \<^verbatim>\<open>\d\<close> matches every Unicode decimal digit (general category Nd)
  and \<^verbatim>\<open>\D\<close> everything else. The category is made of runs of ten consecutive code
  points; \<open>decimal_starts\<close> lists the first code point of each run (Unicode 14.0, the
  table of CPython 3.11).
\<close>

definition decimal_starts :: "nat list" where
  "decimal_starts =
    [48, 1632, 1776, 1984, 2406, 2534, 2662, 2790, 2918, 3046, 3174, 3302, 3430, 3558,
     3664, 3792, 3872, 4160, 4240, 6112, 6160, 6470, 6608, 6784, 6800, 6992, 7088, 7232,
     7248, 42528, 43216, 43264, 43472, 43504, 43600, 44016, 65296, 66720, 68912, 69734,
     69872, 69942, 70096, 70384, 70736, 70864, 71248, 71360, 71472, 71904, 72016, 72784,
     73040, 73120, 92768, 92864, 93008, 120782, 120792, 120802, 120812, 120822, 123200,
     123632, 125264, 130032]"

definition is_decimal :: "nat \<Rightarrow> bool" where
  "is_decimal c = list_ex (\<lambda>s. s \<le> c \<and> c < s + 10) decimal_starts"

definition ascii_digit :: "nat \<Rightarrow> bool" where
  "ascii_digit c \<longleftrightarrow> 48 \<le> c \<and> c \<le> 57"

definition ascii_letter :: "nat \<Rightarrow> bool" where
  "ascii_letter c \<longleftrightarrow> (65 \<le> c \<and> c \<le> 90) \<or> (97 \<le> c \<and> c \<le> 122)"

text \<open>\<^verbatim>\<open>x or ""\<close> for an optional string: \<^verbatim>\<open>None\<close> and \<^verbatim>\<open>""\<close> both give \<^verbatim>\<open>""\<close>.\<close>

definition or_empty :: "pystr option \<Rightarrow> pystr" where
  "or_empty s = (case s of None \<Rightarrow> [] | Some x \<Rightarrow> x)"

text \<open>Truthiness of an optional string: \<^verbatim>\<open>None\<close> and \<^verbatim>\<open>""\<close> are falsy.\<close>

definition truthy :: "pystr option \<Rightarrow> bool" where
  "truthy s = (case s of None \<Rightarrow> False | Some x \<Rightarrow> x \<noteq> [])"

definition strip :: "pystr \<Rightarrow> pystr" where
  "strip s = rev (dropWhile is_space (rev (dropWhile is_space s)))"

text \<open>
  \<^verbatim>\<open>re.sub(r"\s+", " ", s)\<close>: every maximal run of whitespace is replaced by one space
  (code point 32).
\<close>

function sub_spaces :: "pystr \<Rightarrow> pystr" where
  "sub_spaces [] = []"
| "sub_spaces (c # cs) =
     (if is_space c then 32 # sub_spaces (dropWhile is_space cs) else c # sub_spaces cs)"
  by pat_completeness auto
termination
  by (relation "measure length") (auto simp: less_Suc_eq_le length_dropWhile_le)

text \<open>\<^verbatim>\<open>re.sub(r"\D", "", s)\<close>: every character that is not a decimal digit is removed.\<close>

definition sub_non_digits :: "pystr \<Rightarrow> pystr" where
  "sub_non_digits s = filter is_decimal s"

definition clean_text :: "pystr option \<Rightarrow> pystr" where
  "clean_text s = sub_spaces (strip (or_empty s))"

section \<open>The three patterns\<close>

text \<open>
  The patterns are compiled without flags and used through \<^verbatim>\<open>match\<close>, which anchors at
  the start. Without \<^verbatim>\<open>re.MULTILINE\<close>, \<^verbatim>\<open>$\<close> holds at the end of the string and just
  before a newline that is the last character.
\<close>

definition at_dollar :: "pystr \<Rightarrow> bool" where
  "at_dollar rest \<longleftrightarrow> rest = [] \<or> rest = [10]"

text \<open>The class \<^verbatim>\<open>[A-Za-z .'-]\<close>: letters, space, period, apostrophe, hyphen.\<close>

definition name_char :: "nat \<Rightarrow> bool" where
  "name_char c \<longleftrightarrow> ascii_letter c \<or> c = 32 \<or> c = 46 \<or> c = 39 \<or> c = 45"

text \<open>The class \<^verbatim>\<open>[^@\s]\<close>.\<close>

definition email_char :: "nat \<Rightarrow> bool" where
  "email_char c \<longleftrightarrow> c \<noteq> 64 \<and> \<not> is_space c"

text \<open>\<^verbatim>\<open>NAME_REGEX = ^[A-Za-z][A-Za-z .'-]{1,49}$\<close>; \<open>k\<close> is the number of repetitions.\<close>

definition NAME_REGEX :: "pystr \<Rightarrow> bool" where
  "NAME_REGEX s =
     (case s of
        [] \<Rightarrow> False
      | c # r \<Rightarrow> ascii_letter c \<and>
          (\<exists>k \<in> set [1..<50]. k \<le> length r \<and> list_all name_char (take k r) \<and> at_dollar (drop k r)))"

text \<open>\<^verbatim>\<open>PHONE_REGEX = ^[0-9]{10,15}$\<close>.\<close>

definition PHONE_REGEX :: "pystr \<Rightarrow> bool" where
  "PHONE_REGEX s =
     (\<exists>k \<in> set [10..<16]. k \<le> length s \<and> list_all ascii_digit (take k s) \<and> at_dollar (drop k s))"

text \<open>
  \<^verbatim>\<open>EMAIL_REGEX = ^[^@\s]+@[^@\s]+\.[^@\s]+$\<close>: \<open>i\<close> is the position of the \<^verbatim>\<open>@\<close>, \<open>j\<close> the
  position of the period that the pattern's \<^verbatim>\<open>\.\<close> matches, \<open>e\<close> the position where the
  last group ends.
\<close>

definition EMAIL_REGEX :: "pystr \<Rightarrow> bool" where
  "EMAIL_REGEX s =
     (\<exists>i \<in> set [1..<length s]. \<exists>j \<in> set [i + 2..<length s]. \<exists>e \<in> set [j + 2..<Suc (length s)].
        list_all email_char (take i s) \<and> s ! i = 64 \<and>
        list_all email_char (take (j - Suc i) (drop (Suc i) s)) \<and> s ! j = 46 \<and>
        list_all email_char (take (e - Suc j) (drop (Suc j) s)) \<and> at_dollar (drop e s))"

definition DEPARTMENTS :: "pystr list" where
  "DEPARTMENTS = map py
     [''BCA'', ''BSc CS'', ''BSc IT'', ''MCA'', ''MSc CS'', ''ECE'', ''EEE'', ''CSE'', ''AIML'',
      ''Data Science'']"

section \<open>Validation\<close>

text \<open>
  \<^verbatim>\<open>request.form\<close> maps a field name to the submitted value; \<^verbatim>\<open>form.get\<close> gives
  \<^verbatim>\<open>None\<close> for a field that was not sent.
\<close>

type_synonym form = "string \<Rightarrow> pystr option"

text \<open>
  The dictionary kept under \<^verbatim>\<open>session['form_data']\<close> always has the same seven keys. Its
  values are strings when \<^verbatim>\<open>validate_payload\<close> built it and optional strings when
  \<^verbatim>\<open>preview\<close> echoes the raw request, so every value is optional here.
\<close>

record form_data =
  name :: "pystr option"
  department :: "pystr option"
  email :: "pystr option"
  phone :: "pystr option"
  interest :: "pystr option"
  short_goal :: "pystr option"
  long_goal :: "pystr option"

text \<open>\<^verbatim>\<open>validate_payload\<close> returns \<^verbatim>\<open>(False, reason)\<close> as \<open>Inl reason\<close> and
  \<^verbatim>\<open>(True, data)\<close> as \<open>Inr data\<close>.\<close>

definition validate_payload :: "form \<Rightarrow> pystr + form_data" where
  "validate_payload form =
     (if truthy (form ''website'') then Inl (py ''Bot detected.'')
      else
        let name = clean_text (form ''name'');
            dept = clean_text (form ''department'');
            email = clean_text (form ''email'');
            phone = sub_non_digits (or_empty (form ''phone''));
            interest = clean_text (form ''interest'');
            sgoal = clean_text (form ''short_goal'');
            lgoal = clean_text (form ''long_goal'')
        in
          if \<not> NAME_REGEX name then Inl (py ''Please enter a valid full name.'')
          else if dept \<notin> set DEPARTMENTS then Inl (py ''Please select a valid department.'')
          else if \<not> EMAIL_REGEX email then Inl (py ''Please enter a valid email address.'')
          else if \<not> PHONE_REGEX phone then Inl (py ''Phone must be 10-15 digits.'')
          else if length interest < 3 \<or> length interest > 300
            then Inl (py ''Area of interest must be between 3 and 300 characters.'')
          else if length sgoal < 3 \<or> length sgoal > 600
            then Inl (py ''Short-term goal must be between 3 and 600 characters.'')
          else if length lgoal < 3 \<or> length lgoal > 800
            then Inl (py ''Long-term goal must be between 3 and 800 characters.'')
          else Inr \<lparr>name = Some name, department = Some dept, email = Some email,
                    phone = Some phone, interest = Some interest, short_goal = Some sgoal,
                    long_goal = Some lgoal\<rparr>)"

section \<open>Session, configuration and environment\<close>

text \<open>
  The Flask session of one browser: the stored anti-forgery token, the pending form data
  and the flashed messages, each absent until it is first set.
\<close>

record session =
  csrf_token :: "pystr option"
  form_data :: "form_data option"
  flashes :: "pystr list"

text \<open>
  The module-level configuration read from the process environment at start-up, and
  whether the application runs in debug mode (\<^verbatim>\<open>app.run(debug=True)\<close>, as the script itself
  starts it) or is served without it.
\<close>

record config =
  MAIL_USER :: "pystr option"
  MAIL_PASS :: "pystr option"
  OWNER_EMAIL :: pystr
  debug :: bool

datatype exn = Exception string

text \<open>
  What one request gets from outside the program: the value of \<^verbatim>\<open>os.urandom(16).hex()\<close>,
  the clock in the two formats used, and how the library calls with effects end. The
  message is built with \<^verbatim>\<open>EmailMessage\<close> before the \<^verbatim>\<open>try\<close> block of \<^verbatim>\<open>send_email\<close>, and
  the library can raise there (a header value with a line break is refused with a
  \<^verbatim>\<open>ValueError\<close>); the SMTP calls are inside the \<^verbatim>\<open>try\<close> block. A failing append is taken
  to leave the file as it was.
\<close>

record env =
  urandom_hex :: pystr
  now_iso :: pystr
  now_text :: pystr
  csv_error :: "exn option"
  message_error :: "exn option"
  smtp_error :: "exn option"

record message =
  subject :: pystr
  sender :: pystr
  recipient :: pystr
  body :: pystr

text \<open>
  The state the requests of one session act on: the session, the submissions file (absent
  until the first append, then its rows, each a list of cells) and the messages handed to
  the mail server.
\<close>

record world =
  session :: session
  csv_file :: "pystr list list option"
  outbox :: "message list"

section \<open>Tokens\<close>

definition new_csrf_token :: "env \<Rightarrow> session \<Rightarrow> pystr \<times> session" where
  "new_csrf_token e s = (let token = urandom_hex e in (token, s\<lparr>csrf_token := Some token\<rparr>))"

text \<open>
  \<^verbatim>\<open>token and session.get('csrf_token') == token\<close>, read for its truth value as both callers
  do: a missing or empty submitted token is falsy whatever the session holds.
\<close>

definition validate_csrf :: "pystr option \<Rightarrow> session \<Rightarrow> bool" where
  "validate_csrf token s \<longleftrightarrow> truthy token \<and> csrf_token s = token"

definition flash :: "pystr \<Rightarrow> session \<Rightarrow> session" where
  "flash m s = s\<lparr>flashes := flashes s @ [m]\<rparr>"

section \<open>The two sinks\<close>

text \<open>An f-string field: \<^verbatim>\<open>None\<close> is formatted as the text \<^verbatim>\<open>None\<close>.\<close>

definition fmt :: "pystr option \<Rightarrow> pystr" where
  "fmt v = (case v of None \<Rightarrow> py ''None'' | Some x \<Rightarrow> x)"

fun join_lines :: "pystr list \<Rightarrow> pystr" where
  "join_lines [] = []"
| "join_lines [l] = l"
| "join_lines (l # ls) = l @ 10 # join_lines ls"

text \<open>The separator of the subject line is U+2022, the bullet.\<close>

definition build_message :: "config \<Rightarrow> env \<Rightarrow> form_data \<Rightarrow> message" where
  "build_message cfg e data =
     \<lparr>subject = py ''New Student Submission '' @ [8226] @ py '' '' @ fmt (name data) @
                 py '' ('' @ fmt (department data) @ py '')'',
      sender = or_empty (MAIL_USER cfg),
      recipient = OWNER_EMAIL cfg,
      body = join_lines
        [py ''A new student detail submission has been received:'' @ [10],
         py ''Name: '' @ fmt (name data),
         py ''Department: '' @ fmt (department data),
         py ''Email: '' @ fmt (email data),
         py ''Phone: '' @ fmt (phone data),
         py ''Area of Interest: '' @ fmt (interest data),
         py ''Short-Term Goal: '' @ fmt (short_goal data),
         py ''Long-Term Goal: '' @ fmt (long_goal data),
         [],
         py ''Submitted at: '' @ now_text e]\<rparr>"

text \<open>
  \<open>send_email\<close> gives \<open>Inl\<close> when an exception leaves the function and otherwise the
  boolean returned, with the outbox after the call.
\<close>

definition send_email :: "config \<Rightarrow> env \<Rightarrow> form_data \<Rightarrow> message list \<Rightarrow> exn + bool \<times> message list" where
  "send_email cfg e data out =
     (if \<not> (truthy (MAIL_USER cfg) \<and> truthy (MAIL_PASS cfg)) then Inr (False, out)
      else case message_error e of
          Some x \<Rightarrow> Inl x
        | None \<Rightarrow>
           (case smtp_error e of
              None \<Rightarrow> Inr (True, out @ [build_message cfg e data])
            | Some x \<Rightarrow> Inr (False, out)))"

definition fieldnames :: "pystr list" where
  "fieldnames = map py [''timestamp'', ''name'', ''department'', ''email'', ''phone'', ''interest'',
     ''short_goal'', ''long_goal'']"

text \<open>The csv writer writes \<^verbatim>\<open>None\<close> as an empty cell.\<close>

definition csv_row :: "env \<Rightarrow> form_data \<Rightarrow> pystr list" where
  "csv_row e data =
     [now_iso e, or_empty (name data), or_empty (department data), or_empty (email data),
      or_empty (phone data), or_empty (interest data), or_empty (short_goal data),
      or_empty (long_goal data)]"

definition save_to_csv :: "env \<Rightarrow> form_data \<Rightarrow> pystr list list option \<Rightarrow> exn + pystr list list option" where
  "save_to_csv e data file =
     (case csv_error e of
        Some x \<Rightarrow> Inl x
      | None \<Rightarrow>
          (let rows = (case file of None \<Rightarrow> [fieldnames] | Some written \<Rightarrow> written)
           in Inr (Some (rows @ [csv_row e data]))))"

section \<open>Routes\<close>

text \<open>
  A page is one of the three templates with the arguments the handler passes to it. Every
  template starts with \<^verbatim>\<open>{% extends base %}\<close> and every handler passes \<^verbatim>\<open>base=BASE_HEAD\<close>,
  which is a \<^verbatim>\<open>str\<close>: Jinja takes a string there for the name of a template to load, no
  template is registered under the markup as its name, and \<^verbatim>\<open>render_template_string\<close>
  raises \<^verbatim>\<open>TemplateNotFound\<close> before any block of the template is evaluated. So no page is
  ever produced, and the \<^verbatim>\<open>get_flashed_messages()\<close> of the form template never runs: the
  flashed messages stay in the session.
\<close>

datatype response =
    Redirect_index
  | Form_page pystr "form_data option"
  | Preview_page pystr form_data
  | Success_page pystr

datatype result = Response response | Raised exn

definition render_template_string :: "response \<Rightarrow> exn + response" where
  "render_template_string page = Inl (Exception ''TemplateNotFound'')"

text \<open>What a handler ends with once the session holds what it has written.\<close>

definition rendered :: "response \<Rightarrow> world \<Rightarrow> result \<times> world" where
  "rendered page w =
     (case render_template_string page of
        Inl x \<Rightarrow> (Raised x, w)
      | Inr html \<Rightarrow> (Response html, w))"

definition index :: "env \<Rightarrow> world \<Rightarrow> result \<times> world" where
  "index e w =
     (let (csrf, s) = new_csrf_token e (session w);
          data = form_data s
      in rendered (Form_page csrf data) (w\<lparr>session := s\<rparr>))"

definition raw_echo :: "form \<Rightarrow> form_data" where
  "raw_echo form =
     \<lparr>name = form ''name'', department = form ''department'', email = form ''email'',
      phone = form ''phone'', interest = form ''interest'', short_goal = form ''short_goal'',
      long_goal = form ''long_goal''\<rparr>"

definition preview :: "env \<Rightarrow> form \<Rightarrow> world \<Rightarrow> result \<times> world" where
  "preview e form w =
     (if \<not> validate_csrf (form ''csrf_token'') (session w) then
        (Response Redirect_index,
         w\<lparr>session := flash (py ''Invalid session. Please try again.'') (session w)\<rparr>)
      else case validate_payload form of
          Inl reason \<Rightarrow>
            (Response Redirect_index,
             w\<lparr>session := (flash reason (session w))\<lparr>form_data := Some (raw_echo form)\<rparr>\<rparr>)
        | Inr data \<Rightarrow>
            (let (csrf, s) = new_csrf_token e ((session w)\<lparr>form_data := Some data\<rparr>)
             in rendered (Preview_page csrf data) (w\<lparr>session := s\<rparr>)))"

definition submit :: "config \<Rightarrow> env \<Rightarrow> form \<Rightarrow> world \<Rightarrow> result \<times> world" where
  "submit cfg e form w =
     (if \<not> validate_csrf (form ''csrf_token'') (session w) then
        (Response Redirect_index,
         w\<lparr>session := flash (py ''Invalid session. Please try again.'') (session w)\<rparr>)
      else if form ''action'' = Some (py ''edit'') then (Response Redirect_index, w)
      else case form_data (session w) of
          None \<Rightarrow>
            (Response Redirect_index,
             w\<lparr>session := flash (py ''Session expired. Please re-enter your details.'') (session w)\<rparr>)
        | Some data \<Rightarrow>
           (case save_to_csv e data (csv_file w) of
              Inl x \<Rightarrow> (Raised x, w)
            | Inr file \<Rightarrow>
               (case send_email cfg e data (outbox w) of
                  Inl x \<Rightarrow> (Raised x, w\<lparr>csv_file := file\<rparr>)
                | Inr (sent, out) \<Rightarrow>
                   (let (csrf, s) = new_csrf_token e ((session w)\<lparr>form_data := None\<rparr>)
                    in rendered (Success_page csrf)
                         (w\<lparr>session := s, csv_file := file, outbox := out\<rparr>)))))"

datatype request = GET_index | POST_preview form | POST_submit form

fun view :: "config \<Rightarrow> env \<Rightarrow> request \<Rightarrow> world \<Rightarrow> result \<times> world" where
  "view cfg e GET_index w = index e w"
| "view cfg e (POST_preview form) w = preview e form w"
| "view cfg e (POST_submit form) w = submit cfg e form w"

text \<open>
  One request as Flask serves it. The session travels in a cookie that is written with the
  response the application produces. Without debug mode an exception that leaves the view
  is answered with a 500 response, which carries the session as the view left it. In
  debug mode the exception is re-raised to the server instead: no cookie is written and
  the browser keeps the session it had. What the view did outside the session (the row in
  the file, the message sent) stays done in both cases.
\<close>

definition handle :: "config \<Rightarrow> env \<Rightarrow> request \<Rightarrow> world \<Rightarrow> result \<times> world" where
  "handle cfg e r w =
     (case view cfg e r w of
        (Raised x, w') \<Rightarrow> (Raised x, if debug cfg then w'\<lparr>session := session w\<rparr> else w')
      | (Response page, w') \<Rightarrow> (Response page, w'))"

text \<open>A sequence of requests, each with its environment, from the first to the last.\<close>

fun run :: "config \<Rightarrow> (env \<times> request) list \<Rightarrow> world \<Rightarrow> result list \<times> world" where
  "run cfg [] w = ([], w)"
| "run cfg ((e, r) # rs) w =
     (let (res, w') = handle cfg e r w; (ress, w'') = run cfg rs w' in (res # ress, w''))"

definition fresh_world :: world where
  "fresh_world = \<lparr>session = \<lparr>csrf_token = None, form_data = None, flashes = []\<rparr>,
                  csv_file = None, outbox = []\<rparr>"

section \<open>Properties the specification states\<close>

text \<open>
  Whitespace-normalized text: the only whitespace is the space character, no two spaces
  are adjacent, and the text neither starts nor ends with one.
\<close>

fun single_spaced :: "pystr \<Rightarrow> bool" where
  "single_spaced [] = True"
| "single_spaced [c] = (is_space c \<longrightarrow> c = 32)"
| "single_spaced (c # d # r) = ((is_space c \<longrightarrow> c = 32 \<and> \<not> is_space d) \<and> single_spaced (d # r))"

definition normalized :: "pystr \<Rightarrow> bool" where
  "normalized s \<longleftrightarrow> single_spaced s \<and> (s \<noteq> [] \<longrightarrow> \<not> is_space (hd s) \<and> \<not> is_space (last s))"

definition normalized_text :: "pystr option \<Rightarrow> bool" where
  "normalized_text v = (case v of None \<Rightarrow> False | Some t \<Rightarrow> normalized t)"

text \<open>A fully normalized record: every text field normalized, the phone made of the digits
  0 to 9 only.\<close>

definition fully_normalized :: "form_data \<Rightarrow> bool" where
  "fully_normalized d \<longleftrightarrow>
     normalized_text (name d) \<and> normalized_text (department d) \<and> normalized_text (email d) \<and>
     (case phone d of None \<Rightarrow> False | Some p \<Rightarrow> list_all ascii_digit p) \<and>
     normalized_text (interest d) \<and> normalized_text (short_goal d) \<and> normalized_text (long_goal d)"

text \<open>
  The name rule in the specification's words: a letter, then 1 to 49 characters that are
  letters, space, period, apostrophe or hyphen.
\<close>

definition name_shape :: "pystr \<Rightarrow> bool" where
  "name_shape s =
     (case s of
        [] \<Rightarrow> False
      | c # r \<Rightarrow> ascii_letter c \<and> 1 \<le> length r \<and> length r \<le> 49 \<and> list_all name_char r)"

text \<open>
  The validator in the specification's words: the fields are normalized, the rules are
  tried in a fixed order, and the reason of the first violated rule is the result.
\<close>

definition normalize_fields :: "form \<Rightarrow> form_data" where
  "normalize_fields f =
     \<lparr>name = Some (clean_text (f ''name'')),
      department = Some (clean_text (f ''department'')),
      email = Some (clean_text (f ''email'')),
      phone = Some (sub_non_digits (or_empty (f ''phone''))),
      interest = Some (clean_text (f ''interest'')),
      short_goal = Some (clean_text (f ''short_goal'')),
      long_goal = Some (clean_text (f ''long_goal''))\<rparr>"

definition in_bounds :: "nat \<Rightarrow> nat \<Rightarrow> pystr option \<Rightarrow> bool" where
  "in_bounds lo hi v \<longleftrightarrow> lo \<le> length (or_empty v) \<and> length (or_empty v) \<le> hi"

definition rules :: "((form \<Rightarrow> bool) \<times> string) list" where
  "rules =
     [(\<lambda>f. truthy (f ''website''), ''Bot detected.''),
      (\<lambda>f. \<not> NAME_REGEX (or_empty (name (normalize_fields f))), ''Please enter a valid full name.''),
      (\<lambda>f. or_empty (department (normalize_fields f)) \<notin> set DEPARTMENTS,
         ''Please select a valid department.''),
      (\<lambda>f. \<not> EMAIL_REGEX (or_empty (email (normalize_fields f))),
         ''Please enter a valid email address.''),
      (\<lambda>f. \<not> PHONE_REGEX (or_empty (phone (normalize_fields f))), ''Phone must be 10-15 digits.''),
      (\<lambda>f. \<not> in_bounds 3 300 (interest (normalize_fields f)),
         ''Area of interest must be between 3 and 300 characters.''),
      (\<lambda>f. \<not> in_bounds 3 600 (short_goal (normalize_fields f)),
         ''Short-term goal must be between 3 and 600 characters.''),
      (\<lambda>f. \<not> in_bounds 3 800 (long_goal (normalize_fields f)),
         ''Long-term goal must be between 3 and 800 characters.'')]"

definition first_violation :: "form \<Rightarrow> string option" where
  "first_violation f = map_option snd (find (\<lambda>r. fst r f) rules)"

definition spec_validate :: "form \<Rightarrow> pystr + form_data" where
  "spec_validate f =
     (case first_violation f of
        Some reason \<Rightarrow> Inl (py reason)
      | None \<Rightarrow> Inr (normalize_fields f))"

section \<open>Sample inputs\<close>

definition sample_token :: pystr where
  "sample_token = py ''9f86d081884c7d65''"

definition next_token :: pystr where
  "next_token = py ''2c26b46b68ffc68f''"

definition earlier_token :: pystr where
  "earlier_token = py ''e3b0c44298fc1c14''"

definition raw_name :: pystr where
  "raw_name = py ''  Ann   O'' @ [39] @ py ''Brien-Lee ''"

definition clean_name :: pystr where
  "clean_name = py ''Ann O'' @ [39] @ py ''Brien-Lee''"

definition sample_form :: form where
  "sample_form = map_of
     [(''csrf_token'', sample_token),
      (''name'', raw_name),
      (''department'', py ''BCA''),
      (''email'', py ''ann@example.com''),
      (''phone'', py ''(123) 456-7890''),
      (''interest'', py ''Web development''),
      (''short_goal'', py ''Learn Flask''),
      (''long_goal'', py ''Build products'')]"

definition sample_record :: form_data where
  "sample_record =
     \<lparr>name = Some clean_name,
      department = Some (py ''BCA''),
      email = Some (py ''ann@example.com''),
      phone = Some (py ''1234567890''),
      interest = Some (py ''Web development''),
      short_goal = Some (py ''Learn Flask''),
      long_goal = Some (py ''Build products'')\<rparr>"

text \<open>The same fields with a one-letter name, which the name rule rejects.\<close>

definition short_name_form :: form where
  "short_name_form = sample_form(''name'' \<mapsto> py ''A'')"

text \<open>The same fields with a phone of ten ARABIC-INDIC DIGIT ZERO (U+0660).\<close>

definition arabic_phone :: pystr where
  "arabic_phone = [1632, 1632, 1632, 1632, 1632, 1632, 1632, 1632, 1632, 1632]"

definition arabic_phone_form :: form where
  "arabic_phone_form = sample_form(''phone'' \<mapsto> arabic_phone)"

definition bot_form :: form where
  "bot_form = sample_form(''website'' \<mapsto> py ''http://spam.example'')"

definition confirm_form :: form where
  "confirm_form = map_of [(''csrf_token'', sample_token), (''action'', py ''confirm'')]"

definition edit_form :: form where
  "edit_form = map_of [(''csrf_token'', sample_token), (''action'', py ''edit'')]"

text \<open>The valid fields, posted with the token of the form page before.\<close>

definition opening_form :: form where
  "opening_form = sample_form(''csrf_token'' \<mapsto> earlier_token)"

definition tokenless_form :: form where
  "tokenless_form = map_of [(''action'', py ''confirm'')]"

definition sample_config :: config where
  "sample_config = \<lparr>MAIL_USER = None, MAIL_PASS = None, OWNER_EMAIL = py ''owner@example.com'',
                    debug = False\<rparr>"

definition debug_config :: config where
  "debug_config = sample_config\<lparr>debug := True\<rparr>"

definition mail_config :: config where
  "mail_config = \<lparr>MAIL_USER = Some (py ''sender@example.com''), MAIL_PASS = Some (py ''secret''),
                  OWNER_EMAIL = py ''owner@example.com'', debug = False\<rparr>"

definition sample_env :: env where
  "sample_env = \<lparr>urandom_hex = next_token, now_iso = py ''2024-05-01T10:00:00'',
                 now_text = py ''2024-05-01 10:00:00'', csv_error = None, message_error = None,
                 smtp_error = None\<rparr>"

definition first_env :: env where
  "first_env = sample_env\<lparr>urandom_hex := sample_token\<rparr>"

definition opening_env :: env where
  "opening_env = sample_env\<lparr>urandom_hex := earlier_token\<rparr>"

definition header_error_env :: env where
  "header_error_env = sample_env\<lparr>message_error := Some (Exception ''ValueError'')\<rparr>"

definition disk_full_env :: env where
  "disk_full_env = sample_env\<lparr>csv_error := Some (Exception ''OSError'')\<rparr>"

definition smtp_down_env :: env where
  "smtp_down_env = sample_env\<lparr>smtp_error := Some (Exception ''SMTPAuthenticationError'')\<rparr>"

text \<open>A session whose valid fields went through \<^verbatim>\<open>/preview\<close>: it holds the validated
  \<open>sample_record\<close> and the token minted then.\<close>

definition preview_world :: world where
  "preview_world =
     \<lparr>session = \<lparr>csrf_token = Some sample_token, form_data = Some sample_record, flashes = []\<rparr>,
      csv_file = None, outbox = []\<rparr>"


section \<open>Auxiliary facts\<close>

lemma is_space_32: "is_space 32"
  by (simp add: is_space_def)

lemma sub_spaces_Nil_iff: "sub_spaces s = [] \<longleftrightarrow> s = []"
  by (cases s) auto

lemma hd_sub_spaces: "s \<noteq> [] \<Longrightarrow> \<not> is_space (hd s) \<Longrightarrow> hd (sub_spaces s) = hd s"
  by (cases s) auto

lemma single_spaced_Cons_other: "\<not> is_space c \<Longrightarrow> single_spaced (c # t) = single_spaced t"
  by (cases t) auto

lemma single_spaced_Cons_space:
  "single_spaced (32 # t) \<longleftrightarrow> (t \<noteq> [] \<longrightarrow> \<not> is_space (hd t)) \<and> single_spaced t"
  by (cases t) (auto simp: is_space_32)

lemma single_spaced_sub_spaces: "single_spaced (sub_spaces s)"
proof (induction s rule: sub_spaces.induct)
  case 1
  show ?case by simp
next
  case (2 c cs)
  show ?case
  proof (cases "is_space c")
    case True
    let ?d = "dropWhile is_space cs"
    have "?d \<noteq> [] \<Longrightarrow> \<not> is_space (hd (sub_spaces ?d))"
      using hd_dropWhile [of is_space cs] by (simp add: hd_sub_spaces)
    with True 2 show ?thesis
      by (simp add: single_spaced_Cons_space sub_spaces_Nil_iff)
  next
    case False
    with 2 show ?thesis by (simp add: single_spaced_Cons_other)
  qed
qed

lemma sub_spaces_only_space: "c \<in> set (sub_spaces s) \<Longrightarrow> is_space c \<Longrightarrow> c = 32"
proof (induction s rule: sub_spaces.induct)
  case 1
  then show ?case by simp
next
  case (2 d ds)
  then show ?case by (cases "is_space d") auto
qed

lemma last_sub_spaces:
  "s \<noteq> [] \<Longrightarrow> \<not> is_space (last s) \<Longrightarrow> last (sub_spaces s) = last s"
proof (induction s rule: sub_spaces.induct)
  case 1
  then show ?case by simp
next
  case (2 c cs)
  show ?case
  proof (cases "cs = []")
    case True
    with 2 show ?thesis by simp
  next
    case False
    note ne = False
    with 2 have nl: "\<not> is_space (last cs)" by simp
    show ?thesis
    proof (cases "is_space c")
      case True
      have mem: "last cs \<in> set cs" using ne by simp
      have dne: "dropWhile is_space cs \<noteq> []"
        using nl mem by (auto simp: dropWhile_eq_Nil_conv)
      have dl: "last (dropWhile is_space cs) = last cs"
        using dne by (metis last_appendR takeWhile_dropWhile_id)
      from 2(1) [OF True dne] nl dl have "last (sub_spaces (dropWhile is_space cs)) = last cs"
        by simp
      with True dne ne show ?thesis
        by (simp add: sub_spaces_Nil_iff del: dropWhile_eq_Nil_conv)
    next
      case False
      with 2(2) [OF False ne nl] ne show ?thesis
        by (simp add: sub_spaces_Nil_iff)
    qed
  qed
qed

lemma strip_Nil_or_ends:
  "strip s = [] \<or> (\<not> is_space (hd (strip s)) \<and> \<not> is_space (last (strip s)))"
proof (cases "strip s = []")
  case True
  then show ?thesis by simp
next
  case False
  let ?a = "dropWhile is_space s"
  let ?b = "dropWhile is_space (rev ?a)"
  have b: "?b \<noteq> []" using False by (simp add: strip_def)
  have l: "\<not> is_space (last (strip s))"
    using hd_dropWhile [OF b] b by (simp add: strip_def last_rev)
  have a: "?a \<noteq> []"
  proof
    assume "?a = []"
    then have "rev ?a = []" by (simp del: dropWhile_eq_Nil_conv)
    then have "?b = []" by (simp del: dropWhile_eq_Nil_conv)
    with b show False by (simp del: dropWhile_eq_Nil_conv)
  qed
  have ha: "\<not> is_space (hd ?a)" using hd_dropWhile [OF a] .
  obtain p where p: "rev ?a = p @ ?b"
    by (metis takeWhile_dropWhile_id)
  then have "?a = rev ?b @ rev p" by (metis rev_append rev_rev_ident)
  then have "hd ?a = hd (rev ?b)" using b by (metis hd_append2 rev_is_Nil_conv)
  with ha have "\<not> is_space (hd (strip s))" by (simp add: strip_def)
  with l show ?thesis by simp
qed

lemma normalized_clean_text: "normalized (clean_text x)"
proof -
  let ?t = "strip (or_empty x)"
  show ?thesis
  proof (cases "?t = []")
    case True
    then show ?thesis by (simp add: normalized_def clean_text_def)
  next
    case False
    with strip_Nil_or_ends [of "or_empty x"]
    have "\<not> is_space (hd ?t)" and "\<not> is_space (last ?t)" by auto
    with False show ?thesis
      by (simp add: normalized_def clean_text_def single_spaced_sub_spaces
          hd_sub_spaces last_sub_spaces sub_spaces_Nil_iff)
  qed
qed

lemma sub_spaces_single_spaced: "single_spaced t \<Longrightarrow> sub_spaces t = t"
  by (induction t rule: single_spaced.induct) (auto simp: is_space_32)

lemma strip_ends: "s \<noteq> [] \<Longrightarrow> \<not> is_space (hd s) \<Longrightarrow> \<not> is_space (last s) \<Longrightarrow> strip s = s"
proof -
  assume ne: "s \<noteq> []" and h: "\<not> is_space (hd s)" and l: "\<not> is_space (last s)"
  from ne h have a: "dropWhile is_space s = s" by (cases s) auto
  from ne l have "dropWhile is_space (rev s) = rev s"
    by (cases "rev s") (auto simp: last_rev [symmetric] hd_rev)
  with a show ?thesis by (simp add: strip_def)
qed

lemma clean_text_normalized: "normalized t \<Longrightarrow> clean_text (Some t) = t"
proof (cases "t = []")
  case True
  then show ?thesis by (simp add: clean_text_def or_empty_def strip_def)
next
  case False
  assume "normalized t"
  with False show ?thesis
    by (simp add: clean_text_def or_empty_def normalized_def strip_ends sub_spaces_single_spaced)
qed

lemma clean_text_idem: "clean_text (Some (clean_text x)) = clean_text x"
  by (rule clean_text_normalized) (rule normalized_clean_text)

lemma clean_text_no_newline: "10 \<notin> set (clean_text x)"
proof
  assume "10 \<in> set (clean_text x)"
  then have "(10::nat) = 32"
    unfolding clean_text_def by (rule sub_spaces_only_space) (simp add: is_space_def)
  then show False by simp
qed

lemma repeat_dollar:
  assumes "10 \<notin> set r"
  shows "(\<exists>k \<in> set [a..<b]. k \<le> length r \<and> list_all P (take k r) \<and> at_dollar (drop k r))
         \<longleftrightarrow> a \<le> length r \<and> length r < b \<and> list_all P r"
proof
  assume "\<exists>k \<in> set [a..<b]. k \<le> length r \<and> list_all P (take k r) \<and> at_dollar (drop k r)"
  then obtain k where k: "a \<le> k" "k < b" "k \<le> length r" "list_all P (take k r)"
    and d: "at_dollar (drop k r)" by auto
  have "drop k r \<noteq> [10]"
  proof
    assume "drop k r = [10]"
    then have "10 \<in> set (drop k r)" by simp
    then have "10 \<in> set r" by (rule in_set_dropD)
    with assms show False by simp
  qed
  with d have "drop k r = []" by (simp add: at_dollar_def)
  with k(3) have "k = length r" by simp
  with k show "a \<le> length r \<and> length r < b \<and> list_all P r" by simp
next
  assume "a \<le> length r \<and> length r < b \<and> list_all P r"
  then have "length r \<in> set [a..<b] \<and> length r \<le> length r \<and>
      list_all P (take (length r) r) \<and> at_dollar (drop (length r) r)"
    by (simp add: at_dollar_def)
  then show "\<exists>k \<in> set [a..<b]. k \<le> length r \<and> list_all P (take k r) \<and> at_dollar (drop k r)"
    by (intro bexI [where x = "length r"]) simp_all
qed

lemma NAME_REGEX_iff: "10 \<notin> set s \<Longrightarrow> NAME_REGEX s \<longleftrightarrow> name_shape s"
proof (cases s)
  case Nil
  then show ?thesis by (simp add: NAME_REGEX_def name_shape_def)
next
  case (Cons c r)
  assume "10 \<notin> set s"
  with Cons have "10 \<notin> set r" by simp
  from repeat_dollar [OF this, of 1 50 name_char] Cons show ?thesis
    by (auto simp: NAME_REGEX_def name_shape_def)
qed

lemma PHONE_REGEX_iff:
  "10 \<notin> set s \<Longrightarrow> PHONE_REGEX s \<longleftrightarrow> 10 \<le> length s \<and> length s \<le> 15 \<and> list_all ascii_digit s"
  using repeat_dollar [of s 10 16 ascii_digit] by (auto simp: PHONE_REGEX_def)

lemma ascii_digit_decimal: "ascii_digit c \<Longrightarrow> is_decimal c"
  by (simp add: ascii_digit_def is_decimal_def decimal_starts_def)

lemma not_decimal_newline: "\<not> is_decimal 10"
  by (simp add: is_decimal_def decimal_starts_def)

lemma sub_non_digits_no_newline: "10 \<notin> set (sub_non_digits s)"
  by (auto simp: sub_non_digits_def not_decimal_newline)

lemma sub_non_digits_idem: "sub_non_digits (sub_non_digits s) = sub_non_digits s"
  by (simp add: sub_non_digits_def)

lemma sub_non_digits_digits: "list_all is_decimal s \<Longrightarrow> sub_non_digits s = s"
  by (simp add: sub_non_digits_def list_all_iff)

lemma PHONE_REGEX_sub_non_digits:
  "PHONE_REGEX (sub_non_digits s) \<longleftrightarrow>
     10 \<le> length (sub_non_digits s) \<and> length (sub_non_digits s) \<le> 15 \<and>
     list_all ascii_digit (sub_non_digits s)"
  by (rule PHONE_REGEX_iff) (rule sub_non_digits_no_newline)

lemma EMAIL_REGEX_I:
  assumes s: "s = a @ 64 # b @ 46 # c"
    and ne: "a \<noteq> []" "b \<noteq> []" "c \<noteq> []"
    and cl: "list_all email_char a" "list_all email_char b" "list_all email_char c"
  shows "EMAIL_REGEX s"
proof -
  let ?i = "length a" and ?j = "length a + Suc (length b)" and ?e = "length s"
  have ls: "length s = length a + length b + length c + 2" using s by simp
  have la: "1 \<le> length a" using ne(1) by (cases a) simp_all
  have lb: "1 \<le> length b" using ne(2) by (cases b) simp_all
  have lc: "1 \<le> length c" using ne(3) by (cases c) simp_all
  have "1 \<le> ?i \<and> ?i < length s" using ls la lb lc by arith
  then have i: "?i \<in> set [1..<length s]" by simp
  have "?i + 2 \<le> ?j \<and> ?j < length s" using ls la lb lc by arith
  then have j: "?j \<in> set [?i + 2..<length s]" by simp
  have "?j + 2 \<le> ?e \<and> ?e < Suc (length s)" using ls la lb lc by arith
  then have e: "?e \<in> set [?j + 2..<Suc (length s)]" by simp
  have body: "list_all email_char (take ?i s) \<and> s ! ?i = 64 \<and>
        list_all email_char (take (?j - Suc ?i) (drop (Suc ?i) s)) \<and> s ! ?j = 46 \<and>
        list_all email_char (take (?e - Suc ?j) (drop (Suc ?j) s)) \<and> at_dollar (drop ?e s)"
    using s cl by (simp add: at_dollar_def nth_append)
  show ?thesis
    unfolding EMAIL_REGEX_def using i j e body by blast
qed

lemma name_ann_accepted: "NAME_REGEX (clean_text (Some (py ''Ann O'' @ [39] @ py ''Brien-Lee'')))"
  by (simp add: NAME_REGEX_iff clean_text_no_newline)
    (simp add: name_shape_def clean_text_def or_empty_def strip_def py_def is_space_def
      name_char_def ascii_letter_def)

lemma name_single_letter_rejected: "\<not> NAME_REGEX (clean_text (Some (py ''A'')))"
  by (simp add: NAME_REGEX_iff clean_text_no_newline)
    (simp add: name_shape_def clean_text_def or_empty_def strip_def py_def is_space_def
      name_char_def ascii_letter_def)

lemma name_leading_digit_rejected: "\<not> NAME_REGEX (clean_text (Some (py ''123John'')))"
  by (simp add: NAME_REGEX_iff clean_text_no_newline)
    (simp add: name_shape_def clean_text_def or_empty_def strip_def py_def is_space_def
      name_char_def ascii_letter_def)

lemma strip_sample_phone: "sub_non_digits (py ''(123) 456-7890'') = py ''1234567890''"
  by (simp add: sub_non_digits_def py_def is_decimal_def decimal_starts_def)

lemma sample_phone_accepted: "PHONE_REGEX (sub_non_digits (py ''(123) 456-7890''))"
  unfolding strip_sample_phone by (subst PHONE_REGEX_iff) (simp_all add: py_def ascii_digit_def)

lemma short_phone_rejected: "\<not> PHONE_REGEX (sub_non_digits (py ''12345''))"
  by (simp add: PHONE_REGEX_sub_non_digits) (simp add: sub_non_digits_def py_def is_decimal_def decimal_starts_def)

lemma arabic_phone_rejected: "\<not> PHONE_REGEX (sub_non_digits [1632, 1632, 1632, 1632, 1632, 1632, 1632, 1632, 1632, 1632])"
  by (simp add: PHONE_REGEX_sub_non_digits) (simp add: sub_non_digits_def is_decimal_def decimal_starts_def ascii_digit_def)

lemma sample_email_accepted: "EMAIL_REGEX (py ''ann@example.com'')"
  by (rule EMAIL_REGEX_I [of _ "py ''ann''" "py ''example''" "py ''com''"])
    (simp_all add: py_def email_char_def is_space_def)

lemma validate_payload_cases:
  "validate_payload f =
     (if truthy (f ''website'') then Inl (py ''Bot detected.'')
      else if \<not> NAME_REGEX (clean_text (f ''name''))
        then Inl (py ''Please enter a valid full name.'')
      else if clean_text (f ''department'') \<notin> set DEPARTMENTS
        then Inl (py ''Please select a valid department.'')
      else if \<not> EMAIL_REGEX (clean_text (f ''email''))
        then Inl (py ''Please enter a valid email address.'')
      else if \<not> PHONE_REGEX (sub_non_digits (or_empty (f ''phone'')))
        then Inl (py ''Phone must be 10-15 digits.'')
      else if \<not> in_bounds 3 300 (Some (clean_text (f ''interest'')))
        then Inl (py ''Area of interest must be between 3 and 300 characters.'')
      else if \<not> in_bounds 3 600 (Some (clean_text (f ''short_goal'')))
        then Inl (py ''Short-term goal must be between 3 and 600 characters.'')
      else if \<not> in_bounds 3 800 (Some (clean_text (f ''long_goal'')))
        then Inl (py ''Long-term goal must be between 3 and 800 characters.'')
      else Inr (normalize_fields f))"
  by (simp add: validate_payload_def Let_def normalize_fields_def in_bounds_def or_empty_def
      not_less not_le)

lemma spec_validate_cases:
  "spec_validate f =
     (if truthy (f ''website'') then Inl (py ''Bot detected.'')
      else if \<not> NAME_REGEX (clean_text (f ''name''))
        then Inl (py ''Please enter a valid full name.'')
      else if clean_text (f ''department'') \<notin> set DEPARTMENTS
        then Inl (py ''Please select a valid department.'')
      else if \<not> EMAIL_REGEX (clean_text (f ''email''))
        then Inl (py ''Please enter a valid email address.'')
      else if \<not> PHONE_REGEX (sub_non_digits (or_empty (f ''phone'')))
        then Inl (py ''Phone must be 10-15 digits.'')
      else if \<not> in_bounds 3 300 (Some (clean_text (f ''interest'')))
        then Inl (py ''Area of interest must be between 3 and 300 characters.'')
      else if \<not> in_bounds 3 600 (Some (clean_text (f ''short_goal'')))
        then Inl (py ''Short-term goal must be between 3 and 600 characters.'')
      else if \<not> in_bounds 3 800 (Some (clean_text (f ''long_goal'')))
        then Inl (py ''Long-term goal must be between 3 and 800 characters.'')
      else Inr (normalize_fields f))"
  by (simp add: spec_validate_def first_violation_def rules_def normalize_fields_def or_empty_def)

lemma validate_payload_Inr:
  assumes "validate_payload f = Inr d"
  shows "d = normalize_fields f" and "PHONE_REGEX (sub_non_digits (or_empty (f ''phone'')))"
  using assms by (auto simp: validate_payload_cases split: if_splits)

lemma validate_payload_Inl:
  assumes "validate_payload f = Inl r"
  shows "r \<in> set (map (py \<circ> snd) rules)"
  using assms by (auto simp: validate_payload_cases rules_def split: if_splits)

lemma fully_normalized_fields:
  assumes "PHONE_REGEX (sub_non_digits (or_empty (f ''phone'')))"
  shows "fully_normalized (normalize_fields f)"
  using assms
  by (simp add: fully_normalized_def normalize_fields_def normalized_text_def
      normalized_clean_text PHONE_REGEX_sub_non_digits)

lemma sample_form_fields:
  "sample_form ''website'' = None"
  "sample_form ''name'' = Some raw_name"
  "sample_form ''department'' = Some (py ''BCA'')"
  "sample_form ''email'' = Some (py ''ann@example.com'')"
  "sample_form ''phone'' = Some (py ''(123) 456-7890'')"
  "sample_form ''interest'' = Some (py ''Web development'')"
  "sample_form ''short_goal'' = Some (py ''Learn Flask'')"
  "sample_form ''long_goal'' = Some (py ''Build products'')"
  "sample_form ''csrf_token'' = Some sample_token"
  by (simp_all add: sample_form_def)

lemma clean_text_samples:
  "clean_text (Some raw_name) = clean_name"
  "clean_text (Some (py ''BCA'')) = py ''BCA''"
  "clean_text (Some (py ''ann@example.com'')) = py ''ann@example.com''"
  "clean_text (Some (py ''Web development'')) = py ''Web development''"
  "clean_text (Some (py ''Learn Flask'')) = py ''Learn Flask''"
  "clean_text (Some (py ''Build products'')) = py ''Build products''"
  "clean_text (Some (py ''A'')) = py ''A''"
  by (simp_all add: clean_text_def or_empty_def strip_def py_def is_space_def raw_name_def
      clean_name_def)

lemma sample_rules:
  "NAME_REGEX clean_name"
  "py ''BCA'' \<in> set DEPARTMENTS"
  "EMAIL_REGEX (py ''ann@example.com'')"
  "in_bounds 3 300 (Some (py ''Web development''))"
  "in_bounds 3 600 (Some (py ''Learn Flask''))"
  "in_bounds 3 800 (Some (py ''Build products''))"
  "\<not> NAME_REGEX (py ''A'')"
proof -
  show "NAME_REGEX clean_name"
    by (subst NAME_REGEX_iff)
      (simp_all add: clean_name_def py_def name_shape_def name_char_def ascii_letter_def)
  show "py ''BCA'' \<in> set DEPARTMENTS"
    by (simp add: DEPARTMENTS_def)
  show "EMAIL_REGEX (py ''ann@example.com'')"
    by (rule sample_email_accepted)
  show "in_bounds 3 300 (Some (py ''Web development''))"
    by (simp add: in_bounds_def or_empty_def py_def)
  show "in_bounds 3 600 (Some (py ''Learn Flask''))"
    by (simp add: in_bounds_def or_empty_def py_def)
  show "in_bounds 3 800 (Some (py ''Build products''))"
    by (simp add: in_bounds_def or_empty_def py_def)
  show "\<not> NAME_REGEX (py ''A'')"
    by (subst NAME_REGEX_iff) (simp_all add: py_def name_shape_def)
qed

lemma stripped_phone_accepted: "PHONE_REGEX (py ''1234567890'')"
  using sample_phone_accepted by (simp only: strip_sample_phone)

lemma validate_sample_form: "validate_payload sample_form = Inr sample_record"
  by (simp add: validate_payload_cases sample_form_fields clean_text_samples sample_rules
      stripped_phone_accepted truthy_def or_empty_def normalize_fields_def sample_record_def strip_sample_phone)

lemma validate_short_name_form:
  "validate_payload short_name_form = Inl (py ''Please enter a valid full name.'')"
  by (simp add: validate_payload_cases short_name_form_def sample_form_fields clean_text_samples
      sample_rules truthy_def)

lemma validate_arabic_phone_form:
  "validate_payload arabic_phone_form = Inl (py ''Phone must be 10-15 digits.'')"
  using arabic_phone_rejected
  by (simp add: validate_payload_cases arabic_phone_form_def arabic_phone_def sample_form_fields
      clean_text_samples sample_rules truthy_def or_empty_def)


lemma tokens_differ: "sample_token \<noteq> next_token"
  by (simp add: sample_token_def next_token_def py_def)

lemma sample_token_nonempty: "sample_token \<noteq> []"
  by (simp add: sample_token_def py_def)

lemma earlier_token_nonempty: "earlier_token \<noteq> []"
  by (simp add: earlier_token_def py_def)

lemma sample_token_truthy: "truthy (Some sample_token)"
  by (simp add: truthy_def sample_token_nonempty)

lemma confirm_form_fields:
  "confirm_form ''csrf_token'' = Some sample_token"
  "confirm_form ''action'' \<noteq> Some (py ''edit'')"
  by (simp_all add: confirm_form_def py_def)

lemma edit_form_fields:
  "edit_form ''csrf_token'' = Some sample_token"
  "edit_form ''action'' = Some (py ''edit'')"
  by (simp_all add: edit_form_def)

lemma preview_world_session:
  "csrf_token (session preview_world) = Some sample_token"
  "form_data (session preview_world) = Some sample_record"
  "csv_file preview_world = None"
  "outbox preview_world = []"
  by (simp_all add: preview_world_def)

lemma sample_configs:
  "\<not> debug sample_config" "\<not> debug mail_config" "debug debug_config"
  "\<not> truthy (MAIL_USER sample_config)" "\<not> truthy (MAIL_USER debug_config)"
  "truthy (MAIL_USER mail_config)" "truthy (MAIL_PASS mail_config)"
  by (simp_all add: sample_config_def mail_config_def debug_config_def truthy_def py_def)

lemma sample_envs:
  "urandom_hex sample_env = next_token" "csv_error sample_env = None"
  "urandom_hex first_env = sample_token" "urandom_hex opening_env = earlier_token"
  "urandom_hex smtp_down_env = next_token" "csv_error smtp_down_env = None"
  "message_error smtp_down_env = None"
  "smtp_error smtp_down_env = Some (Exception ''SMTPAuthenticationError'')"
  "urandom_hex header_error_env = next_token" "csv_error header_error_env = None"
  "message_error header_error_env = Some (Exception ''ValueError'')"
  by (simp_all add: sample_env_def first_env_def opening_env_def smtp_down_env_def
      header_error_env_def)

lemma flash_csrf_token: "csrf_token (flash m s) = csrf_token s"
  by (simp add: flash_def)

lemma template_missing: "rendered page w = (Raised (Exception ''TemplateNotFound''), w)"
  by (simp add: rendered_def render_template_string_def)

lemma index_result:
  "index e w =
     (Raised (Exception ''TemplateNotFound''),
      w\<lparr>session := (session w)\<lparr>csrf_token := Some (urandom_hex e)\<rparr>\<rparr>)"
  by (simp add: index_def new_csrf_token_def template_missing Let_def)

lemma preview_accepted:
  assumes "validate_csrf (form ''csrf_token'') (session w)"
    and "validate_payload form = Inr d"
  shows "preview e form w =
     (Raised (Exception ''TemplateNotFound''),
      w\<lparr>session := (session w)\<lparr>form_data := Some d, csrf_token := Some (urandom_hex e)\<rparr>\<rparr>)"
  using assms by (simp add: preview_def new_csrf_token_def template_missing Let_def)

lemma submit_completed:
  assumes "validate_csrf (form ''csrf_token'') (session w)"
    and "form ''action'' \<noteq> Some (py ''edit'')"
    and "form_data (session w) = Some d"
    and "save_to_csv e d (csv_file w) = Inr saved"
    and "send_email cfg e d (outbox w) = Inr (sent, out)"
  shows "submit cfg e form w =
     (Raised (Exception ''TemplateNotFound''),
      w\<lparr>session := (session w)\<lparr>form_data := None, csrf_token := Some (urandom_hex e)\<rparr>,
        csv_file := saved, outbox := out\<rparr>)"
  using assms by (simp add: submit_def new_csrf_token_def template_missing Let_def)

lemma preview_token:
  "preview e form w = (res, w') \<Longrightarrow>
     (res = Response Redirect_index \<and> csrf_token (session w') = csrf_token (session w)) \<or>
     ((\<exists>x. res = Raised x) \<and> csrf_token (session w') = Some (urandom_hex e))"
  by (auto simp: preview_def new_csrf_token_def template_missing flash_csrf_token Let_def
      split: if_splits sum.splits)

lemma submit_token:
  "submit cfg e form w = (res, w') \<Longrightarrow>
     (res = Response Redirect_index \<and> csrf_token (session w') = csrf_token (session w)) \<or>
     ((\<exists>x. res = Raised x) \<and>
      (csrf_token (session w') = csrf_token (session w) \<or>
       csrf_token (session w') = Some (urandom_hex e)))"
  by (auto simp: submit_def new_csrf_token_def template_missing flash_csrf_token Let_def
      split: if_splits sum.splits option.splits prod.splits)

lemma view_token:
  "view cfg e r w = (res, w') \<Longrightarrow>
     (res = Response Redirect_index \<and> csrf_token (session w') = csrf_token (session w)) \<or>
     ((\<exists>x. res = Raised x) \<and>
      (csrf_token (session w') = csrf_token (session w) \<or>
       csrf_token (session w') = Some (urandom_hex e)))"
proof (cases r)
  case GET_index
  assume "view cfg e r w = (res, w')"
  with GET_index show ?thesis by (auto simp: index_result)
next
  case (POST_preview form)
  assume "view cfg e r w = (res, w')"
  with POST_preview preview_token [of e form w res w'] show ?thesis by auto
next
  case (POST_submit form)
  assume "view cfg e r w = (res, w')"
  with POST_submit submit_token [of cfg e form w res w'] show ?thesis by auto
qed

lemma handle_Response:
  "view cfg e r w = (Response page, w') \<Longrightarrow> handle cfg e r w = (Response page, w')"
  by (simp add: handle_def)

lemma handle_Raised:
  "view cfg e r w = (Raised x, w') \<Longrightarrow>
     handle cfg e r w = (Raised x, if debug cfg then w'\<lparr>session := session w\<rparr> else w')"
  by (simp add: handle_def)

lemma handle_token:
  "handle cfg e r w = (res, w') \<Longrightarrow>
     (res = Response Redirect_index \<and> csrf_token (session w') = csrf_token (session w)) \<or>
     ((\<exists>x. res = Raised x) \<and>
      (csrf_token (session w') = csrf_token (session w) \<or>
       csrf_token (session w') = Some (urandom_hex e)) \<and>
      (debug cfg \<longrightarrow> session w' = session w))"
proof -
  assume h: "handle cfg e r w = (res, w')"
  obtain res0 w0 where v: "view cfg e r w = (res0, w0)" by (cases "view cfg e r w")
  from view_token [OF v] show ?thesis
  proof
    assume "res0 = Response Redirect_index \<and> csrf_token (session w0) = csrf_token (session w)"
    with v h handle_Response [of cfg e r w Redirect_index w0] show ?thesis by auto
  next
    assume a: "(\<exists>x. res0 = Raised x) \<and>
      (csrf_token (session w0) = csrf_token (session w) \<or>
       csrf_token (session w0) = Some (urandom_hex e))"
    then obtain x where x: "res0 = Raised x" by blast
    with v h handle_Raised [of cfg e r w x w0] a show ?thesis
      by (cases "debug cfg") auto
  qed
qed

lemma submit_edit_preview_world:
  "submit cfg e edit_form preview_world = (Response Redirect_index, preview_world)"
  by (simp add: submit_def validate_csrf_def edit_form_fields preview_world_session
      sample_token_truthy)

lemma save_sample:
  "csv_error e = None \<Longrightarrow>
     save_to_csv e d None = Inr (Some [fieldnames, csv_row e d])"
  by (simp add: save_to_csv_def)

lemma confirm_valid: "validate_csrf (confirm_form ''csrf_token'') (session preview_world)"
  by (simp add: validate_csrf_def confirm_form_fields preview_world_session sample_token_truthy)

lemma send_without_credentials:
  "\<not> truthy (MAIL_USER cfg) \<Longrightarrow> send_email cfg e d out = Inr (False, out)"
  by (simp add: send_email_def)

lemma submit_confirm_preview_world:
  "submit sample_config sample_env confirm_form preview_world =
     (Raised (Exception ''TemplateNotFound''),
      \<lparr>session = \<lparr>csrf_token = Some next_token, form_data = None, flashes = []\<rparr>,
       csv_file = Some [fieldnames, csv_row sample_env sample_record], outbox = []\<rparr>)"
proof -
  have "submit sample_config sample_env confirm_form preview_world =
     (Raised (Exception ''TemplateNotFound''),
      preview_world\<lparr>session := (session preview_world)
           \<lparr>form_data := None, csrf_token := Some (urandom_hex sample_env)\<rparr>,
         csv_file := Some [fieldnames, csv_row sample_env sample_record], outbox := []\<rparr>)"
    using submit_completed
      [where form = confirm_form and w = preview_world and d = sample_record
         and e = sample_env and cfg = sample_config and sent = False and out = "[]"
         and saved = "Some [fieldnames, csv_row sample_env sample_record]",
       OF confirm_valid confirm_form_fields(2) preview_world_session(2)]
    by (simp add: preview_world_session save_sample sample_envs send_without_credentials
        sample_configs)
  then show ?thesis by (simp add: preview_world_def sample_envs)
qed

lemma opening_form_fields:
  "opening_form ''csrf_token'' = Some earlier_token"
  "validate_payload opening_form = Inr sample_record"
  by (simp_all add: validate_payload_cases opening_form_def sample_form_fields clean_text_samples
      sample_rules stripped_phone_accepted truthy_def or_empty_def normalize_fields_def
      sample_record_def strip_sample_phone)

lemma preview_world_reached:
  "run sample_config [(opening_env, GET_index), (first_env, POST_preview opening_form)]
     fresh_world =
     ([Raised (Exception ''TemplateNotFound''), Raised (Exception ''TemplateNotFound'')],
      preview_world)"
proof -
  let ?w1 = "\<lparr>session = \<lparr>csrf_token = Some earlier_token, form_data = None, flashes = []\<rparr>,
        csv_file = None, outbox = []\<rparr>"
  have s1: "handle sample_config opening_env GET_index fresh_world =
      (Raised (Exception ''TemplateNotFound''), ?w1)"
    by (simp add: handle_def index_result fresh_world_def sample_envs sample_configs)
  have v: "validate_csrf (opening_form ''csrf_token'') (session ?w1)"
    by (simp add: validate_csrf_def opening_form_fields truthy_def earlier_token_nonempty)
  have s2: "handle sample_config first_env (POST_preview opening_form) ?w1 =
      (Raised (Exception ''TemplateNotFound''), preview_world)"
    by (simp add: handle_def preview_accepted [OF v opening_form_fields(2)] sample_envs
        sample_configs preview_world_def)
  from s1 s2 show ?thesis by simp
qed


section \<open>Claims about the validator\<close>

text \<open>
  Claim C6. When the honeypot field \<^verbatim>\<open>website\<close> is non-empty, validation rejects with the
  bot-detection reason whatever the other fields hold: any two requests with the same
  non-empty honeypot get this same result, so no other field is looked at.
\<close>

theorem honeypot_rejects:
  assumes "truthy (form ''website'')"
  shows "validate_payload form = Inl (py ''Bot detected.'') \<and>
         (\<forall>other. other ''website'' = form ''website'' \<longrightarrow>
            validate_payload other = Inl (py ''Bot detected.''))"
  using assms by (simp add: validate_payload_def)

theorem honeypot_rejects_witness:
  "truthy (bot_form ''website'') \<and> validate_payload bot_form = Inl (py ''Bot detected.'') \<and>
   validate_payload (bot_form(''name'' \<mapsto> [])) = Inl (py ''Bot detected.'')"
proof -
  have h: "truthy (bot_form ''website'')"
    by (simp add: bot_form_def truthy_def py_def)
  have "(bot_form(''name'' \<mapsto> [])) ''website'' = bot_form ''website''"
    by simp
  with honeypot_rejects [where form = bot_form, OF h] h show ?thesis by blast
qed

text \<open>
  Claim C5. Validation returns either the fully normalized record (every text field
  whitespace-normalized, the phone made of digits only) or one reason, the reason of the
  first violated rule in the order honeypot, name, department, email, phone, interest,
  short-term goal, long-term goal. The result is a function of the input, and a rejection
  carries one of the eight reasons.
\<close>

theorem validation_first_violation:
  "validate_payload f = spec_validate f \<and>
   (\<forall>d. validate_payload f = Inr d \<longrightarrow> d = normalize_fields f \<and> fully_normalized d) \<and>
   (\<forall>r. validate_payload f = Inl r \<longrightarrow> r \<in> set (map (py \<circ> snd) rules))"
proof (intro conjI allI impI)
  show "validate_payload f = spec_validate f"
    by (simp only: validate_payload_cases spec_validate_cases)
next
  fix d assume d: "validate_payload f = Inr d"
  then show "d = normalize_fields f" by (rule validate_payload_Inr)
  with validate_payload_Inr(2) [OF d] show "fully_normalized d"
    by (simp add: fully_normalized_fields)
next
  fix r assume "validate_payload f = Inl r"
  then show "r \<in> set (map (py \<circ> snd) rules)" by (rule validate_payload_Inl)
qed

theorem validation_first_violation_witness:
  "validate_payload sample_form = Inr sample_record \<and>
   spec_validate sample_form = Inr sample_record \<and>
   fully_normalized sample_record \<and>
   validate_payload short_name_form = Inl (py ''Please enter a valid full name.'') \<and>
   spec_validate short_name_form = Inl (py ''Please enter a valid full name.'')"
proof -
  have a: "validate_payload sample_form = Inr sample_record"
    by (rule validate_sample_form)
  have b: "validate_payload short_name_form = Inl (py ''Please enter a valid full name.'')"
    by (rule validate_short_name_form)
  from validation_first_violation [of sample_form] validation_first_violation [of short_name_form]
    a b
  show ?thesis by simp
qed

text \<open>
  Claim C8. After whitespace normalization the name passes the name pattern exactly when it
  is a letter followed by 1 to 49 characters that are letters, space, period, apostrophe
  or hyphen; past the honeypot, validation gives the name reason exactly when the
  normalized name does not have that shape. \<^verbatim>\<open>A\<close> is rejected, \<^verbatim>\<open>Ann O'Brien-Lee\<close> is
  accepted, \<^verbatim>\<open>123John\<close> is rejected.
\<close>

theorem name_rule_shape:
  "(NAME_REGEX (clean_text raw) \<longleftrightarrow> name_shape (clean_text raw)) \<and>
   (\<not> truthy (form ''website'') \<longrightarrow>
      (validate_payload form = Inl (py ''Please enter a valid full name.'') \<longleftrightarrow>
       \<not> name_shape (clean_text (form ''name'')))) \<and>
   (name_shape (clean_text raw) \<longrightarrow> 2 \<le> length (clean_text raw) \<and> length (clean_text raw) \<le> 50) \<and>
   \<not> NAME_REGEX (clean_text (Some (py ''A''))) \<and>
   NAME_REGEX (clean_text (Some (py ''Ann O'' @ [39] @ py ''Brien-Lee''))) \<and>
   \<not> NAME_REGEX (clean_text (Some (py ''123John'')))"
proof (intro conjI impI)
  show "NAME_REGEX (clean_text raw) \<longleftrightarrow> name_shape (clean_text raw)"
    by (rule NAME_REGEX_iff) (rule clean_text_no_newline)
next
  assume "\<not> truthy (form ''website'')"
  then show "validate_payload form = Inl (py ''Please enter a valid full name.'') \<longleftrightarrow>
       \<not> name_shape (clean_text (form ''name''))"
    by (simp add: validate_payload_cases NAME_REGEX_iff clean_text_no_newline py_def)
next
  assume "name_shape (clean_text raw)"
  then show "2 \<le> length (clean_text raw)" "length (clean_text raw) \<le> 50"
    by (auto simp: name_shape_def split: list.splits)
next
  show "\<not> NAME_REGEX (clean_text (Some (py ''A'')))" by (rule name_single_letter_rejected)
  show "NAME_REGEX (clean_text (Some (py ''Ann O'' @ [39] @ py ''Brien-Lee'')))" by (rule name_ann_accepted)
  show "\<not> NAME_REGEX (clean_text (Some (py ''123John'')))" by (rule name_leading_digit_rejected)
qed

theorem name_rule_shape_witness:
  "\<not> truthy (sample_form ''website'') \<and>
   name_shape (clean_text (sample_form ''name'')) \<and>
   validate_payload sample_form \<noteq> Inl (py ''Please enter a valid full name.'') \<and>
   length (clean_text (sample_form ''name'')) \<le> 50 \<and>
   \<not> truthy (short_name_form ''website'') \<and>
   \<not> name_shape (clean_text (short_name_form ''name'')) \<and>
   validate_payload short_name_form = Inl (py ''Please enter a valid full name.'')"
proof -
  have a: "\<not> truthy (sample_form ''website'')"
    by (simp add: sample_form_fields truthy_def)
  have b: "\<not> truthy (short_name_form ''website'')"
    by (simp add: short_name_form_def sample_form_fields truthy_def)
  have c: "validate_payload sample_form \<noteq> Inl (py ''Please enter a valid full name.'')"
    by (simp add: validate_sample_form)
  have d: "validate_payload short_name_form = Inl (py ''Please enter a valid full name.'')"
    by (rule validate_short_name_form)
  from name_rule_shape [where form = sample_form and raw = "sample_form ''name''"]
    name_rule_shape [where form = short_name_form and raw = "short_name_form ''name''"] a b c d
  show ?thesis by blast
qed

text \<open>
  Claim C7, as the specification states it: after stripping, the phone is accepted exactly
  when 10 to 15 digits remain. A phone written with ten decimal digits of another script
  is left whole by the stripping, since \<^verbatim>\<open>\D\<close> spares every Unicode decimal digit, and is
  then rejected by the pattern, which asks for \<^verbatim>\<open>[0-9]\<close>.
\<close>

theorem phone_unicode_digits_counterexample:
  "list_all is_decimal arabic_phone \<and>
   sub_non_digits arabic_phone = arabic_phone \<and>
   length (sub_non_digits arabic_phone) = 10 \<and>
   \<not> PHONE_REGEX (sub_non_digits arabic_phone) \<and>
   arabic_phone_form ''phone'' = Some arabic_phone \<and>
   validate_payload arabic_phone_form = Inl (py ''Phone must be 10-15 digits.'')"
proof -
  have d: "list_all is_decimal arabic_phone"
    by (simp add: arabic_phone_def is_decimal_def decimal_starts_def)
  then have s: "sub_non_digits arabic_phone = arabic_phone"
    by (rule sub_non_digits_digits)
  have l: "length arabic_phone = 10"
    by (simp add: arabic_phone_def)
  have p: "\<not> PHONE_REGEX (sub_non_digits arabic_phone)"
    using arabic_phone_rejected by (simp add: arabic_phone_def)
  have f: "arabic_phone_form ''phone'' = Some arabic_phone"
    by (simp add: arabic_phone_form_def)
  from d s l p f validate_arabic_phone_form show ?thesis by simp
qed

text \<open>
  Claim C7, amended. Stripping the non-digit characters is idempotent and leaves a string of
  digits as it is. After stripping, the phone is accepted exactly when what remains is 10
  to 15 characters long and made of the ASCII digits 0 to 9 only; an accepted record holds
  that stripped phone, and the phone reason is given only when the stripped phone is not
  of that form. \<^verbatim>\<open>(123) 456-7890\<close> becomes \<^verbatim>\<open>1234567890\<close> and is accepted, \<^verbatim>\<open>12345\<close>
  is rejected.
\<close>

theorem phone_rule:
  "sub_non_digits (sub_non_digits s) = sub_non_digits s \<and>
   (list_all is_decimal s \<longrightarrow> sub_non_digits s = s) \<and>
   (PHONE_REGEX (sub_non_digits s) \<longleftrightarrow>
      10 \<le> length (sub_non_digits s) \<and> length (sub_non_digits s) \<le> 15 \<and>
      list_all ascii_digit (sub_non_digits s)) \<and>
   (\<forall>d. validate_payload form = Inr d \<longrightarrow>
      phone d = Some (sub_non_digits (or_empty (form ''phone''))) \<and>
      PHONE_REGEX (sub_non_digits (or_empty (form ''phone'')))) \<and>
   (validate_payload form = Inl (py ''Phone must be 10-15 digits.'') \<longrightarrow>
      \<not> PHONE_REGEX (sub_non_digits (or_empty (form ''phone'')))) \<and>
   sub_non_digits (py ''(123) 456-7890'') = py ''1234567890'' \<and>
   PHONE_REGEX (sub_non_digits (py ''(123) 456-7890'')) \<and>
   \<not> PHONE_REGEX (sub_non_digits (py ''12345''))"
proof (intro conjI allI impI)
  show "sub_non_digits (sub_non_digits s) = sub_non_digits s"
    by (rule sub_non_digits_idem)
next
  assume "list_all is_decimal s"
  then show "sub_non_digits s = s" by (rule sub_non_digits_digits)
next
  show "PHONE_REGEX (sub_non_digits s) \<longleftrightarrow>
      10 \<le> length (sub_non_digits s) \<and> length (sub_non_digits s) \<le> 15 \<and>
      list_all ascii_digit (sub_non_digits s)"
    by (rule PHONE_REGEX_sub_non_digits)
next
  fix d assume d: "validate_payload form = Inr d"
  from validate_payload_Inr(1) [OF d]
  show "phone d = Some (sub_non_digits (or_empty (form ''phone'')))"
    by (simp add: normalize_fields_def)
  from validate_payload_Inr(2) [OF d]
  show "PHONE_REGEX (sub_non_digits (or_empty (form ''phone'')))" .
next
  assume "validate_payload form = Inl (py ''Phone must be 10-15 digits.'')"
  then show "\<not> PHONE_REGEX (sub_non_digits (or_empty (form ''phone'')))"
    by (simp add: validate_payload_cases py_def split: if_splits)
next
  show "sub_non_digits (py ''(123) 456-7890'') = py ''1234567890''" by (rule strip_sample_phone)
  show "PHONE_REGEX (sub_non_digits (py ''(123) 456-7890''))" by (rule sample_phone_accepted)
  show "\<not> PHONE_REGEX (sub_non_digits (py ''12345''))" by (rule short_phone_rejected)
qed

theorem phone_rule_witness:
  "list_all is_decimal (py ''1234567890'') \<and>
   sub_non_digits (py ''1234567890'') = py ''1234567890'' \<and>
   validate_payload sample_form = Inr sample_record \<and>
   phone sample_record = Some (sub_non_digits (or_empty (sample_form ''phone''))) \<and>
   validate_payload arabic_phone_form = Inl (py ''Phone must be 10-15 digits.'') \<and>
   \<not> PHONE_REGEX (sub_non_digits (or_empty (arabic_phone_form ''phone'')))"
proof -
  have a: "list_all is_decimal (py ''1234567890'')"
    by (simp add: py_def is_decimal_def decimal_starts_def)
  have b: "validate_payload sample_form = Inr sample_record"
    by (rule validate_sample_form)
  have c: "validate_payload arabic_phone_form = Inl (py ''Phone must be 10-15 digits.'')"
    by (rule validate_arabic_phone_form)
  from phone_rule [where s = "py ''1234567890''" and form = sample_form]
    phone_rule [where s = "[]" and form = arabic_phone_form] a b c
  show ?thesis by blast
qed


section \<open>Claims about the workflow\<close>

text \<open>
  Claim C10. A state-changing request whose csrf token is missing or empty fails the token
  check in every session, also in one that has no stored token, and both \<^verbatim>\<open>/preview\<close>
  and \<^verbatim>\<open>/submit\<close> then flash the invalid-session message and redirect to the form, with
  nothing else changed.
\<close>

theorem missing_token_rejected:
  assumes "form ''csrf_token'' = None \<or> form ''csrf_token'' = Some []"
  shows "\<not> validate_csrf (form ''csrf_token'') (session w) \<and>
         preview e form w =
           (Response Redirect_index,
            w\<lparr>session := flash (py ''Invalid session. Please try again.'') (session w)\<rparr>) \<and>
         submit cfg e form w =
           (Response Redirect_index,
            w\<lparr>session := flash (py ''Invalid session. Please try again.'') (session w)\<rparr>)"
  using assms by (auto simp: validate_csrf_def truthy_def preview_def submit_def)

theorem missing_token_rejected_witness:
  "tokenless_form ''csrf_token'' = None \<and>
   csrf_token (session fresh_world) = None \<and>
   \<not> validate_csrf (tokenless_form ''csrf_token'') (session fresh_world) \<and>
   fst (preview sample_env tokenless_form fresh_world) = Response Redirect_index \<and>
   fst (submit sample_config sample_env tokenless_form fresh_world) = Response Redirect_index"
proof -
  have h: "tokenless_form ''csrf_token'' = None"
    by (simp add: tokenless_form_def)
  then have h': "tokenless_form ''csrf_token'' = None \<or> tokenless_form ''csrf_token'' = Some []"
    by simp
  have s: "csrf_token (session fresh_world) = None"
    by (simp add: fresh_world_def)
  from missing_token_rejected
    [where form = tokenless_form and w = fresh_world and e = sample_env and cfg = sample_config, OF h']
    h s
  show ?thesis by simp
qed

text \<open>
  Claim C9. With a matching csrf token, \<^verbatim>\<open>/submit\<close> with action \<^verbatim>\<open>edit\<close> redirects to the
  form and changes no session data: the view returns the redirect with the state exactly
  as it was, so does the request as served, and the pending record is still the one
  stored in the session.
\<close>

theorem edit_keeps_session:
  assumes "validate_csrf (form ''csrf_token'') (session w)"
    and "form ''action'' = Some (py ''edit'')"
  shows "submit cfg e form w = (Response Redirect_index, w) \<and>
         handle cfg e (POST_submit form) w = (Response Redirect_index, w) \<and>
         form_data (session (snd (handle cfg e (POST_submit form) w))) = form_data (session w)"
  using assms by (simp add: submit_def handle_def)

theorem edit_keeps_session_witness:
  "validate_csrf (edit_form ''csrf_token'') (session preview_world) \<and>
   edit_form ''action'' = Some (py ''edit'') \<and>
   submit sample_config sample_env edit_form preview_world = (Response Redirect_index, preview_world) \<and>
   handle sample_config sample_env (POST_submit edit_form) preview_world =
     (Response Redirect_index, preview_world) \<and>
   form_data (session (snd (handle sample_config sample_env (POST_submit edit_form) preview_world))) =
     Some sample_record"
proof -
  have a: "validate_csrf (edit_form ''csrf_token'') (session preview_world)"
    by (simp add: validate_csrf_def edit_form_def preview_world_def truthy_def sample_token_def py_def)
  have b: "edit_form ''action'' = Some (py ''edit'')"
    by (simp add: edit_form_def)
  have c: "form_data (session preview_world) = Some sample_record"
    by (simp add: preview_world_def)
  from edit_keeps_session
    [where form = edit_form and w = preview_world and cfg = sample_config and e = sample_env, OF a b]
    a b c
  show ?thesis by simp
qed

text \<open>
  Claim C4. When the append to the submissions file raises during a confirm request (token
  matching, action not \<^verbatim>\<open>edit\<close>, a pending record present), \<^verbatim>\<open>submit\<close> ends with that
  exception and the state is exactly as before the request: no message was sent, the
  pending record is still in the session, and no page was rendered.
\<close>

theorem persistence_failure_propagates:
  assumes "validate_csrf (form ''csrf_token'') (session w)"
    and "form ''action'' \<noteq> Some (py ''edit'')"
    and "form_data (session w) = Some data"
    and "save_to_csv e data (csv_file w) = Inl x"
  shows "submit cfg e form w = (Raised x, w) \<and>
         outbox (snd (submit cfg e form w)) = outbox w \<and>
         form_data (session (snd (submit cfg e form w))) = Some data \<and>
         (\<forall>csrf. fst (submit cfg e form w) \<noteq> Response (Success_page csrf))"
  using assms by (simp add: submit_def)

theorem persistence_failure_propagates_witness:
  "validate_csrf (confirm_form ''csrf_token'') (session preview_world) \<and>
   confirm_form ''action'' \<noteq> Some (py ''edit'') \<and>
   form_data (session preview_world) = Some sample_record \<and>
   save_to_csv disk_full_env sample_record (csv_file preview_world) = Inl (Exception ''OSError'') \<and>
   submit mail_config disk_full_env confirm_form preview_world =
     (Raised (Exception ''OSError''), preview_world)"
proof -
  have a: "validate_csrf (confirm_form ''csrf_token'') (session preview_world)"
    by (simp add: validate_csrf_def confirm_form_def preview_world_def truthy_def sample_token_def
        py_def)
  have b: "confirm_form ''action'' \<noteq> Some (py ''edit'')"
    by (simp add: confirm_form_def py_def)
  have c: "form_data (session preview_world) = Some sample_record"
    by (simp add: preview_world_def)
  have d: "save_to_csv disk_full_env sample_record (csv_file preview_world) = Inl (Exception ''OSError'')"
    by (simp add: save_to_csv_def disk_full_env_def)
  from persistence_failure_propagates
    [where form = confirm_form and w = preview_world and cfg = mail_config, OF a b c d] a b c d
  show ?thesis by simp
qed


text \<open>
  Claim C3, at a failing input. In the session that holds a validated record, a confirm
  request with the matching token is served while the mail server refuses the login:
  \<^verbatim>\<open>send_email\<close> returns \<^verbatim>\<open>False\<close> and sends nothing, the row is appended, the pending
  record is cleared and a new token is stored, and then the render of the success
  template raises \<^verbatim>\<open>TemplateNotFound\<close>. No run of \<^verbatim>\<open>submit\<close> returns the success page. When
  building the message raises, before the \<^verbatim>\<open>try\<close> block, the exception leaves
  \<^verbatim>\<open>send_email\<close> and \<^verbatim>\<open>submit\<close> after the row was appended, and the pending record stays.
\<close>

theorem confirm_never_renders_success:
  "fst (submit cfg e form w) \<noteq> Response (Success_page csrf) \<and>
   send_email mail_config smtp_down_env sample_record [] = Inr (False, []) \<and>
   submit mail_config smtp_down_env confirm_form preview_world =
     (Raised (Exception ''TemplateNotFound''),
      \<lparr>session = \<lparr>csrf_token = Some next_token, form_data = None, flashes = []\<rparr>,
       csv_file = Some [fieldnames, csv_row smtp_down_env sample_record], outbox = []\<rparr>) \<and>
   send_email mail_config header_error_env sample_record [] = Inl (Exception ''ValueError'') \<and>
   submit mail_config header_error_env confirm_form preview_world =
     (Raised (Exception ''ValueError''),
      \<lparr>session = \<lparr>csrf_token = Some sample_token, form_data = Some sample_record, flashes = []\<rparr>,
       csv_file = Some [fieldnames, csv_row header_error_env sample_record], outbox = []\<rparr>)"
proof -
  have never: "fst (submit cfg e form w) \<noteq> Response (Success_page csrf)"
    by (auto simp: submit_def template_missing new_csrf_token_def Let_def
        split: option.splits sum.splits prod.splits)
  have down: "send_email mail_config smtp_down_env sample_record [] = Inr (False, [])"
    by (simp add: send_email_def sample_configs sample_envs)
  have "submit mail_config smtp_down_env confirm_form preview_world =
     (Raised (Exception ''TemplateNotFound''),
      preview_world\<lparr>session := (session preview_world)
           \<lparr>form_data := None, csrf_token := Some (urandom_hex smtp_down_env)\<rparr>,
         csv_file := Some [fieldnames, csv_row smtp_down_env sample_record], outbox := []\<rparr>)"
    using submit_completed
      [where form = confirm_form and w = preview_world and d = sample_record
         and e = smtp_down_env and cfg = mail_config and sent = False and out = "[]"
         and saved = "Some [fieldnames, csv_row smtp_down_env sample_record]",
       OF confirm_valid confirm_form_fields(2) preview_world_session(2)]
    by (simp add: preview_world_session save_sample sample_envs down)
  then have first: "submit mail_config smtp_down_env confirm_form preview_world =
     (Raised (Exception ''TemplateNotFound''),
      \<lparr>session = \<lparr>csrf_token = Some next_token, form_data = None, flashes = []\<rparr>,
       csv_file = Some [fieldnames, csv_row smtp_down_env sample_record], outbox = []\<rparr>)"
    by (simp add: preview_world_def sample_envs)
  have build: "send_email mail_config header_error_env sample_record [] =
      Inl (Exception ''ValueError'')"
    by (simp add: send_email_def sample_configs sample_envs)
  have second: "submit mail_config header_error_env confirm_form preview_world =
     (Raised (Exception ''ValueError''),
      \<lparr>session = \<lparr>csrf_token = Some sample_token, form_data = Some sample_record, flashes = []\<rparr>,
       csv_file = Some [fieldnames, csv_row header_error_env sample_record], outbox = []\<rparr>)"
    using confirm_valid build
    by (simp add: submit_def confirm_form_fields preview_world_session save_sample sample_envs)
      (simp add: preview_world_def)
  from never down first build second show ?thesis by blast
qed

text \<open>
  Claim C2, as the specification states it: a token validates exactly one state-changing
  request. A session served without debug mode loads the form and has its valid fields
  accepted by \<^verbatim>\<open>/preview\<close>, which stores the token \<open>sample_token\<close>. That token is presented
  with action \<^verbatim>\<open>edit\<close>: the request passes the check and redirects, the state is as
  before, and the same token passes the check again on a confirm request, which goes on
  to append the record.
\<close>

theorem token_reuse_counterexample:
  "snd (run sample_config [(opening_env, GET_index), (first_env, POST_preview opening_form)]
          fresh_world) = preview_world \<and>
   validate_csrf (edit_form ''csrf_token'') (session preview_world) \<and>
   handle sample_config sample_env (POST_submit edit_form) preview_world =
     (Response Redirect_index, preview_world) \<and>
   confirm_form ''csrf_token'' = edit_form ''csrf_token'' \<and>
   validate_csrf (confirm_form ''csrf_token'')
     (session (snd (handle sample_config sample_env (POST_submit edit_form) preview_world))) \<and>
   csv_file (snd (handle sample_config sample_env (POST_submit confirm_form)
       (snd (handle sample_config sample_env (POST_submit edit_form) preview_world)))) =
     Some [fieldnames, csv_row sample_env sample_record]"
proof -
  have a: "snd (run sample_config
      [(opening_env, GET_index), (first_env, POST_preview opening_form)] fresh_world) =
      preview_world"
    by (simp only: preview_world_reached snd_conv)
  have b: "validate_csrf (edit_form ''csrf_token'') (session preview_world)"
    by (simp add: validate_csrf_def edit_form_fields preview_world_session sample_token_truthy)
  have c: "handle sample_config sample_env (POST_submit edit_form) preview_world =
     (Response Redirect_index, preview_world)"
    by (simp add: handle_def submit_edit_preview_world)
  have d: "confirm_form ''csrf_token'' = edit_form ''csrf_token''"
    by (simp add: confirm_form_fields edit_form_fields)
  have e: "csv_file (snd (handle sample_config sample_env (POST_submit confirm_form)
       preview_world)) = Some [fieldnames, csv_row sample_env sample_record]"
    by (simp add: handle_def submit_confirm_preview_world sample_configs)
  from a b c d e confirm_valid show ?thesis by simp
qed

text \<open>
  Claim C2, amended. A state-changing request passes the token check exactly when it
  presents a non-empty token equal to the one stored in the session, and otherwise takes
  the invalid-session path. The check does not consume the token: a request that ends in
  a redirect leaves the stored token as it was, and after any request the stored token is
  either the one from before or the one newly minted in that request. A new token is
  minted and stored by each handler just before it calls the renderer, that is by
  \<^verbatim>\<open>GET /\<close>, by a \<^verbatim>\<open>/preview\<close> whose fields are accepted and by a confirm whose record was
  appended and whose mail step returned; served without debug mode the session keeps it,
  and from then on no other token passes the check, the earlier one included. In debug
  mode a request that ends in an exception leaves the session as it was.
\<close>

theorem token_rotation:
  "(validate_csrf tok s \<longleftrightarrow> (\<exists>t. tok = Some t \<and> t \<noteq> [] \<and> csrf_token s = Some t)) \<and>
   (\<forall>form. r = POST_preview form \<or> r = POST_submit form \<longrightarrow>
      \<not> validate_csrf (form ''csrf_token'') (session w) \<longrightarrow>
      handle cfg e r w =
        (Response Redirect_index,
         w\<lparr>session := flash (py ''Invalid session. Please try again.'') (session w)\<rparr>)) \<and>
   (fst (handle cfg e r w) = Response Redirect_index \<longrightarrow>
      csrf_token (session (snd (handle cfg e r w))) = csrf_token (session w)) \<and>
   (csrf_token (session (snd (handle cfg e r w))) = csrf_token (session w) \<or>
    csrf_token (session (snd (handle cfg e r w))) = Some (urandom_hex e)) \<and>
   (csrf_token (session (snd (handle cfg e r w))) = Some (urandom_hex e) \<longrightarrow>
      (\<forall>t. t \<noteq> urandom_hex e \<longrightarrow>
         \<not> validate_csrf (Some t) (session (snd (handle cfg e r w))))) \<and>
   (\<not> debug cfg \<longrightarrow> r = GET_index \<longrightarrow>
      csrf_token (session (snd (handle cfg e r w))) = Some (urandom_hex e)) \<and>
   (\<not> debug cfg \<longrightarrow>
      (\<forall>form d. r = POST_preview form \<longrightarrow> validate_csrf (form ''csrf_token'') (session w) \<longrightarrow>
         validate_payload form = Inr d \<longrightarrow>
         csrf_token (session (snd (handle cfg e r w))) = Some (urandom_hex e))) \<and>
   (\<not> debug cfg \<longrightarrow>
      (\<forall>form d saved sent out. r = POST_submit form \<longrightarrow>
         validate_csrf (form ''csrf_token'') (session w) \<longrightarrow>
         form ''action'' \<noteq> Some (py ''edit'') \<longrightarrow> form_data (session w) = Some d \<longrightarrow>
         save_to_csv e d (csv_file w) = Inr saved \<longrightarrow>
         send_email cfg e d (outbox w) = Inr (sent, out) \<longrightarrow>
         csrf_token (session (snd (handle cfg e r w))) = Some (urandom_hex e))) \<and>
   (debug cfg \<longrightarrow> (\<exists>x. fst (handle cfg e r w) = Raised x) \<longrightarrow>
      session (snd (handle cfg e r w)) = session w)"
proof -
  obtain res w' where h: "handle cfg e r w = (res, w')" by (cases "handle cfg e r w")
  note tok = handle_token [OF h]
  have c1: "validate_csrf tok s \<longleftrightarrow> (\<exists>t. tok = Some t \<and> t \<noteq> [] \<and> csrf_token s = Some t)"
    by (cases tok) (auto simp: validate_csrf_def truthy_def)
  have c2: "\<forall>form. r = POST_preview form \<or> r = POST_submit form \<longrightarrow>
      \<not> validate_csrf (form ''csrf_token'') (session w) \<longrightarrow>
      handle cfg e r w =
        (Response Redirect_index,
         w\<lparr>session := flash (py ''Invalid session. Please try again.'') (session w)\<rparr>)"
    by (auto simp: handle_def preview_def submit_def)
  have c3: "fst (handle cfg e r w) = Response Redirect_index \<longrightarrow>
      csrf_token (session (snd (handle cfg e r w))) = csrf_token (session w)"
    using tok h by auto
  have c4: "csrf_token (session (snd (handle cfg e r w))) = csrf_token (session w) \<or>
    csrf_token (session (snd (handle cfg e r w))) = Some (urandom_hex e)"
    using tok h by auto
  have c5: "csrf_token (session (snd (handle cfg e r w))) = Some (urandom_hex e) \<longrightarrow>
      (\<forall>t. t \<noteq> urandom_hex e \<longrightarrow>
         \<not> validate_csrf (Some t) (session (snd (handle cfg e r w))))"
    by (simp add: validate_csrf_def)
  have c6: "\<not> debug cfg \<longrightarrow> r = GET_index \<longrightarrow>
      csrf_token (session (snd (handle cfg e r w))) = Some (urandom_hex e)"
    by (simp add: handle_def index_result)
  have c7: "\<not> debug cfg \<longrightarrow>
      (\<forall>form d. r = POST_preview form \<longrightarrow> validate_csrf (form ''csrf_token'') (session w) \<longrightarrow>
         validate_payload form = Inr d \<longrightarrow>
         csrf_token (session (snd (handle cfg e r w))) = Some (urandom_hex e))"
    by (simp add: handle_def preview_accepted)
  have c8: "\<not> debug cfg \<longrightarrow>
      (\<forall>form d saved sent out. r = POST_submit form \<longrightarrow>
         validate_csrf (form ''csrf_token'') (session w) \<longrightarrow>
         form ''action'' \<noteq> Some (py ''edit'') \<longrightarrow> form_data (session w) = Some d \<longrightarrow>
         save_to_csv e d (csv_file w) = Inr saved \<longrightarrow>
         send_email cfg e d (outbox w) = Inr (sent, out) \<longrightarrow>
         csrf_token (session (snd (handle cfg e r w))) = Some (urandom_hex e))"
    by (simp add: handle_def submit_completed)
  have c9: "debug cfg \<longrightarrow> (\<exists>x. fst (handle cfg e r w) = Raised x) \<longrightarrow>
      session (snd (handle cfg e r w)) = session w"
    using tok h by auto
  from c1 c2 c3 c4 c5 c6 c7 c8 c9 show ?thesis by blast
qed

theorem token_rotation_witness:
  "validate_csrf (Some sample_token) (session preview_world) \<and>
   \<not> debug sample_config \<and>
   csrf_token (session (snd (handle sample_config sample_env (POST_submit confirm_form)
     preview_world))) = Some next_token \<and>
   sample_token \<noteq> next_token \<and>
   \<not> validate_csrf (Some sample_token)
     (session (snd (handle sample_config sample_env (POST_submit confirm_form) preview_world))) \<and>
   fst (handle sample_config sample_env (POST_submit edit_form) preview_world) =
     Response Redirect_index \<and>
   csrf_token (session (snd (handle sample_config sample_env (POST_submit edit_form)
     preview_world))) = Some sample_token \<and>
   \<not> validate_csrf (tokenless_form ''csrf_token'') (session preview_world) \<and>
   fst (handle sample_config sample_env (POST_submit tokenless_form) preview_world) =
     Response Redirect_index \<and>
   csrf_token (session (snd (handle sample_config first_env GET_index fresh_world))) =
     Some sample_token \<and>
   debug debug_config \<and>
   fst (handle debug_config first_env GET_index fresh_world) =
     Raised (Exception ''TemplateNotFound'') \<and>
   session (snd (handle debug_config first_env GET_index fresh_world)) = session fresh_world"
proof -
  note t1 = token_rotation
    [where tok = "Some sample_token" and s = "session preview_world" and cfg = sample_config
       and e = sample_env and r = "POST_submit confirm_form" and w = preview_world]
  note t2 = token_rotation
    [where tok = "tokenless_form ''csrf_token''" and s = "session preview_world"
       and cfg = sample_config and e = sample_env and r = "POST_submit edit_form"
       and w = preview_world]
  note t3 = token_rotation
    [where tok = "tokenless_form ''csrf_token''" and s = "session preview_world"
       and cfg = sample_config and e = sample_env and r = "POST_submit tokenless_form"
       and w = preview_world]
  note t4 = token_rotation
    [where tok = None and s = "session fresh_world" and cfg = sample_config and e = first_env
       and r = GET_index and w = fresh_world]
  note t5 = token_rotation
    [where tok = None and s = "session fresh_world" and cfg = debug_config and e = first_env
       and r = GET_index and w = fresh_world]
  have b: "fst (handle sample_config sample_env (POST_submit edit_form) preview_world) =
     Response Redirect_index"
    by (simp add: handle_def submit_edit_preview_world)
  have n: "tokenless_form ''csrf_token'' = None" by (simp add: tokenless_form_def)
  have g: "fst (handle debug_config first_env GET_index fresh_world) =
     Raised (Exception ''TemplateNotFound'')"
    by (simp add: handle_def index_result)
  have sv: "save_to_csv sample_env sample_record (csv_file preview_world) =
      Inr (Some [fieldnames, csv_row sample_env sample_record])"
    by (simp add: preview_world_session save_sample sample_envs)
  have se: "send_email sample_config sample_env sample_record (outbox preview_world) =
      Inr (False, [])"
    by (simp add: preview_world_session send_without_credentials sample_configs)
  have v: "validate_csrf (Some sample_token) (session preview_world)"
    by (simp add: validate_csrf_def preview_world_session sample_token_truthy)
  have c1: "csrf_token (session (snd (handle sample_config sample_env (POST_submit confirm_form)
     preview_world))) = Some next_token"
    using t1 sample_configs(1) confirm_valid confirm_form_fields preview_world_session(2) sv se
      sample_envs(1)
    by (metis request.inject(2))
  have c2: "\<not> validate_csrf (Some sample_token)
     (session (snd (handle sample_config sample_env (POST_submit confirm_form) preview_world)))"
    using t1 c1 sample_envs(1) tokens_differ by simp
  have c3: "csrf_token (session (snd (handle sample_config sample_env (POST_submit edit_form)
     preview_world))) = Some sample_token"
    using t2 b preview_world_session(1) by simp
  have c4: "\<not> validate_csrf (tokenless_form ''csrf_token'') (session preview_world)"
    using t2 n by simp
  have c5: "fst (handle sample_config sample_env (POST_submit tokenless_form) preview_world) =
     Response Redirect_index"
    using t3 c4 by simp
  have c6: "csrf_token (session (snd (handle sample_config first_env GET_index fresh_world))) =
     Some sample_token"
    using t4 sample_configs(1) sample_envs(3) by simp
  have c7: "session (snd (handle debug_config first_env GET_index fresh_world)) =
     session fresh_world"
    using t5 sample_configs(3) g by simp
  from v sample_configs(1) c1 tokens_differ c2 b c3 c4 c5 c6 sample_configs(3) g c7
  show ?thesis by simp
qed

text \<open>
  Claim C1, at a failing input. A fresh session, served without debug mode, requests the
  form, which stores the token \<open>sample_token\<close>; it posts fields whose name is the single
  letter \<^verbatim>\<open>A\<close> to \<^verbatim>\<open>/preview\<close>, which rejects them and keeps the raw fields in the session;
  it then posts a confirm to \<^verbatim>\<open>/submit\<close> with the same token. \<^verbatim>\<open>submit\<close> takes whatever the
  session holds under \<^verbatim>\<open>form_data\<close>: the rejected raw fields are appended to the
  submissions file (name \<^verbatim>\<open>A\<close>, phone with its punctuation) and the pending data is
  cleared, before the render raises. In debug mode the token of the first request never
  reaches the session, both posts are refused and nothing is appended.
\<close>

theorem unvalidated_record_persisted:
  "validate_payload short_name_form = Inl (py ''Please enter a valid full name.'') \<and>
   run sample_config
     [(first_env, GET_index), (sample_env, POST_preview short_name_form),
      (sample_env, POST_submit confirm_form)] fresh_world =
     ([Raised (Exception ''TemplateNotFound''), Response Redirect_index,
       Raised (Exception ''TemplateNotFound'')],
      \<lparr>session = \<lparr>csrf_token = Some next_token, form_data = None,
                   flashes = [py ''Please enter a valid full name.'']\<rparr>,
       csv_file = Some [fieldnames,
         [py ''2024-05-01T10:00:00'', py ''A'', py ''BCA'', py ''ann@example.com'',
          py ''(123) 456-7890'', py ''Web development'', py ''Learn Flask'',
          py ''Build products'']],
       outbox = []\<rparr>) \<and>
   run debug_config
     [(first_env, GET_index), (sample_env, POST_preview short_name_form),
      (sample_env, POST_submit confirm_form)] fresh_world =
     ([Raised (Exception ''TemplateNotFound''), Response Redirect_index,
       Response Redirect_index],
      \<lparr>session = \<lparr>csrf_token = None, form_data = None,
                   flashes = [py ''Invalid session. Please try again.'',
                              py ''Invalid session. Please try again.'']\<rparr>,
       csv_file = None, outbox = []\<rparr>)"
proof -
  let ?w1 = "\<lparr>session = \<lparr>csrf_token = Some sample_token, form_data = None, flashes = []\<rparr>,
        csv_file = None, outbox = []\<rparr>"
  let ?w2 = "\<lparr>session = \<lparr>csrf_token = Some sample_token,
                    form_data = Some (raw_echo short_name_form),
                    flashes = [py ''Please enter a valid full name.'']\<rparr>,
        csv_file = None, outbox = []\<rparr>"
  have v: "validate_payload short_name_form = Inl (py ''Please enter a valid full name.'')"
    by (rule validate_short_name_form)
  have f: "short_name_form ''csrf_token'' = Some sample_token"
    "raw_echo short_name_form =
       \<lparr>name = Some (py ''A''), department = Some (py ''BCA''),
        email = Some (py ''ann@example.com''), phone = Some (py ''(123) 456-7890''),
        interest = Some (py ''Web development''), short_goal = Some (py ''Learn Flask''),
        long_goal = Some (py ''Build products'')\<rparr>"
    by (simp_all add: short_name_form_def raw_echo_def sample_form_fields)
  have s1: "handle sample_config first_env GET_index fresh_world =
      (Raised (Exception ''TemplateNotFound''), ?w1)"
    by (simp add: handle_def index_result fresh_world_def sample_envs sample_configs)
  have s2: "handle sample_config sample_env (POST_preview short_name_form) ?w1 =
      (Response Redirect_index, ?w2)"
    by (simp add: handle_def preview_def validate_csrf_def f(1) sample_token_truthy v flash_def)
  have s3: "handle sample_config sample_env (POST_submit confirm_form) ?w2 =
      (Raised (Exception ''TemplateNotFound''),
       \<lparr>session = \<lparr>csrf_token = Some next_token, form_data = None,
                    flashes = [py ''Please enter a valid full name.'']\<rparr>,
        csv_file = Some [fieldnames, csv_row sample_env (raw_echo short_name_form)],
        outbox = []\<rparr>)"
    by (simp add: handle_def submit_def validate_csrf_def confirm_form_fields sample_token_truthy
        save_to_csv_def send_email_def new_csrf_token_def template_missing sample_configs
        sample_envs Let_def)
  have r: "csv_row sample_env (raw_echo short_name_form) =
      [py ''2024-05-01T10:00:00'', py ''A'', py ''BCA'', py ''ann@example.com'',
       py ''(123) 456-7890'', py ''Web development'', py ''Learn Flask'', py ''Build products'']"
    by (simp add: csv_row_def f(2) or_empty_def sample_env_def)
  have d1: "handle debug_config first_env GET_index fresh_world =
      (Raised (Exception ''TemplateNotFound''), fresh_world)"
    by (simp add: handle_def index_result fresh_world_def sample_configs)
  have d2: "handle debug_config sample_env (POST_preview short_name_form) fresh_world =
      (Response Redirect_index,
       fresh_world\<lparr>session := flash (py ''Invalid session. Please try again.'')
         (session fresh_world)\<rparr>)"
    by (simp add: handle_def preview_def validate_csrf_def fresh_world_def f(1))
  have d3: "handle debug_config sample_env (POST_submit confirm_form)
       (fresh_world\<lparr>session := flash (py ''Invalid session. Please try again.'')
         (session fresh_world)\<rparr>) =
      (Response Redirect_index,
       \<lparr>session = \<lparr>csrf_token = None, form_data = None,
                   flashes = [py ''Invalid session. Please try again.'',
                              py ''Invalid session. Please try again.'']\<rparr>,
       csv_file = None, outbox = []\<rparr>)"
    by (simp add: handle_def submit_def validate_csrf_def fresh_world_def flash_def
        confirm_form_fields)
  from v s1 s2 s3 r d1 d2 d3 show ?thesis by simp
qed


end
